theory Spec2Isabelle
  imports Complex_Main
begin

section \<open>Python strings\<close>

text \<open>
  A string is the list of the bytes of its UTF-8 encoding. Comparing, concatenating and
  splitting at an ASCII character act on the encoding as Python acts on the string, since
  the byte of an ASCII character never occurs inside the encoding of another character.
  \<^verbatim>\<open>str.upper\<close> and \<^verbatim>\<open>str.lower\<close> follow the Unicode tables of the interpreter; they are not
  defined here but taken from the environment of the service (see below).
\<close>

text \<open>
  \<^verbatim>\<open>s.split(sep)\<close> for a one-character separator. The result is never the empty list,
  so the first branch of the \<open>case\<close> is never taken.
\<close>

fun split :: "char \<Rightarrow> string \<Rightarrow> string list" where
  "split sep [] = [[]]"
| "split sep (c # cs) =
     (if c = sep then [] # split sep cs
      else (case split sep cs of [] \<Rightarrow> [[c]] | w # ws \<Rightarrow> (c # w) # ws))"

text \<open>\<^verbatim>\<open>sep.join(items)\<close>.\<close>

fun join :: "string \<Rightarrow> string list \<Rightarrow> string" where
  "join sep [] = []"
| "join sep [x] = x"
| "join sep (x # y # ys) = x @ sep @ join sep (y # ys)"

text \<open>\<^verbatim>\<open>s.rstrip(c)\<close> for a one-character argument.\<close>

definition rstrip :: "char \<Rightarrow> string \<Rightarrow> string" where
  "rstrip c s = rev (dropWhile (\<lambda>x. x = c) (rev s))"

section \<open>Errors\<close>

text \<open>
  The exceptions the two request handlers can raise. \<open>KeyError\<close> carries the missing
  key and \<open>ValueError\<close> the text that \<^verbatim>\<open>float\<close> rejected; \<open>DatabaseError\<close> and
  \<open>RequestException\<close> carry the message of the failing library call.
\<close>

datatype error =
    KeyError string
  | ValueError string
  | IndexError
  | AttributeError
  | ExpatError
  | DatabaseError string
  | RequestException string

text \<open>\<^verbatim>\<open>xs[i]\<close> for a non-negative index.\<close>

definition item :: "'a list \<Rightarrow> nat \<Rightarrow> error + 'a" where
  "item xs i = (if i < length xs then Inr (xs ! i) else Inl IndexError)"

section \<open>Python dictionaries\<close>

text \<open>
  A \<^verbatim>\<open>dict\<close> keeps its keys in insertion order, and the order decides which value
  survives when keys are upper-cased, so a dictionary is an association list with
  distinct keys. Assigning to a key that is present replaces the value in place;
  assigning to a new key appends it.
\<close>

type_synonym ('k, 'v) dict = "('k \<times> 'v) list"

fun dict_set :: "'k \<Rightarrow> 'v \<Rightarrow> ('k, 'v) dict \<Rightarrow> ('k, 'v) dict" where
  "dict_set k v [] = [(k, v)]"
| "dict_set k v ((k', v') # d) =
     (if k' = k then (k, v) # d else (k', v') # dict_set k v d)"

definition dict_get :: "('k, 'v) dict \<Rightarrow> 'k \<Rightarrow> 'v option" where
  "dict_get d k = map_of d k"

text \<open>\<^verbatim>\<open>d[k]\<close> as an expression.\<close>

definition dict_item :: "(string, 'v) dict \<Rightarrow> string \<Rightarrow> error + 'v" where
  "dict_item d k = (case dict_get d k of None \<Rightarrow> Inl (KeyError k) | Some v \<Rightarrow> Inr v)"

text \<open>\<^verbatim>\<open>del d[k]\<close>, used only on keys that are present.\<close>

definition dict_del :: "'k \<Rightarrow> ('k, 'v) dict \<Rightarrow> ('k, 'v) dict" where
  "dict_del k d = filter (\<lambda>kv. fst kv \<noteq> k) d"

text \<open>\<^verbatim>\<open>d.update(e)\<close>, and \<^verbatim>\<open>dict(pairs)\<close> for a list of pairs.\<close>

definition dict_update :: "('k, 'v) dict \<Rightarrow> ('k \<times> 'v) list \<Rightarrow> ('k, 'v) dict" where
  "dict_update d e = foldl (\<lambda>acc kv. dict_set (fst kv) (snd kv) acc) d e"

definition dict_of :: "('k \<times> 'v) list \<Rightarrow> ('k, 'v) dict" where
  "dict_of pairs = dict_update [] pairs"

text \<open>
  The comprehension \<^verbatim>\<open>{k.upper(): v for k, v in params.items()}\<close>, for the upper-casing
  function \<open>up\<close> of the interpreter.
\<close>

definition upper_keys :: "(string \<Rightarrow> string) \<Rightarrow> (string, 'v) dict \<Rightarrow> (string, 'v) dict" where
  "upper_keys up d = foldl (\<lambda>acc kv. dict_set (up (fst kv)) (snd kv) acc) [] d"

section \<open>The document object model\<close>

text \<open>
  What \<^verbatim>\<open>xml.dom.minidom\<close> builds: a document node over its children, elements with
  a tag name, attributes and children, and character data (text, comments), which has
  no children.
\<close>

datatype node =
    Document "node list"
  | Element string "(string \<times> string) list" "node list"
  | CharacterData string

fun tag_matches :: "node \<Rightarrow> string \<Rightarrow> bool" where
  "tag_matches (Element t as cs) name = (name = ''*'' \<or> t = name)"
| "tag_matches n name = False"

text \<open>
  \<^verbatim>\<open>getElementsByTagName\<close>: every descendant element with the tag, in document order;
  the node itself is not among them.
\<close>

fun getElementsByTagName :: "node \<Rightarrow> string \<Rightarrow> node list" where
  "getElementsByTagName (Document cs) name =
     concat (map (\<lambda>c. (if tag_matches c name then [c] else []) @ getElementsByTagName c name) cs)"
| "getElementsByTagName (Element t as cs) name =
     concat (map (\<lambda>c. (if tag_matches c name then [c] else []) @ getElementsByTagName c name) cs)"
| "getElementsByTagName (CharacterData s) name = []"

text \<open>\<^verbatim>\<open>getAttribute\<close>: the empty string when the attribute is absent.\<close>

fun getAttribute :: "node \<Rightarrow> string \<Rightarrow> string" where
  "getAttribute (Element t as cs) name = (case map_of as name of None \<Rightarrow> [] | Some v \<Rightarrow> v)"
| "getAttribute n name = []"

section \<open>The environment of the service\<close>

text \<open>
  Everything the handlers reach outside their own code: the process environment, the
  interpreter's \<^verbatim>\<open>str.upper\<close> and \<^verbatim>\<open>str.lower\<close>, its floating-point numbers (type \<open>'f\<close>: \<^verbatim>\<open>float(s)\<close>, addition,
  multiplication and the literal 0.5), the database engine (values of type \<open>'d\<close>), the
  HTTP client and the XML parser. A library call that raises returns \<open>Inl\<close> with the
  message.
\<close>

record 'f spatial_query =
  q_table :: string
  q_x :: 'f
  q_y :: 'f
  q_srid :: nat

record 'd print_info_row =
  nfgeometer :: 'd
  lieferdatum :: 'd
  anschrift :: 'd
  kontakt :: 'd
  gemeinde :: 'd

text \<open>A parameter value: a string of the caller or of the service, or a database value.\<close>

datatype 'd pval = Str string | Db 'd

type_synonym 'd params = "(string, 'd pval) dict"

record upstream =
  up_status_code :: nat
  up_content_type :: "string option"
  up_content :: "string list"

record ('f, 'd) env =
  environ :: "string \<Rightarrow> string option"
  str_upper :: "string \<Rightarrow> string"
  str_lower :: "string \<Rightarrow> string"
  float_of :: "string \<Rightarrow> 'f option"
  float_add :: "'f \<Rightarrow> 'f \<Rightarrow> 'f"
  float_mul :: "'f \<Rightarrow> 'f \<Rightarrow> 'f"
  float_half :: 'f
  db_connect :: "string option"
  db_execute :: "'f spatial_query \<Rightarrow> string + 'd print_info_row option"
  requests_get :: "string \<Rightarrow> (string, string) dict \<Rightarrow> string + string"
  requests_post :: "string \<Rightarrow> nat \<Rightarrow> 'd params \<Rightarrow> string + upstream"
  parseString :: "string \<Rightarrow> node option"

definition getenv :: "('f, 'd) env \<Rightarrow> string \<Rightarrow> string \<Rightarrow> string" where
  "getenv env name dflt = (case environ env name of None \<Rightarrow> dflt | Some v \<Rightarrow> v)"

definition QGIS_SERVER_URL :: "('f, 'd) env \<Rightarrow> string" where
  "QGIS_SERVER_URL env = getenv env ''QGIS_SERVER_URL'' ''http://localhost:8001/ows/''"

definition DEFAULT_LANDREG_LAYOUT :: "('f, 'd) env \<Rightarrow> string" where
  "DEFAULT_LANDREG_LAYOUT env = getenv env ''DEFAULT_LANDREG_LAYOUT'' ''A4-Hoch''"

text \<open>\<^verbatim>\<open>QGIS_SERVER_URL.rstrip("/") + "/" + project\<close>, the address of both handlers.\<close>

definition project_url :: "('f, 'd) env \<Rightarrow> string" where
  "project_url env =
     rstrip CHR ''/'' (QGIS_SERVER_URL env) @ ''/'' @ getenv env ''LANDREG_PROJECT'' ''grundbuch''"

text \<open>\<^verbatim>\<open>float(s)\<close> raises ValueError on text that is no number.\<close>

definition py_float :: "('f, 'd) env \<Rightarrow> string \<Rightarrow> error + 'f" where
  "py_float env s = (case float_of env s of None \<Rightarrow> Inl (ValueError s) | Some f \<Rightarrow> Inr f)"

text \<open>\<^verbatim>\<open>list(map(f, xs))\<close> for a function that may raise: the first failure is raised.\<close>

fun map_raise :: "('a \<Rightarrow> error + 'b) \<Rightarrow> 'a list \<Rightarrow> error + 'b list" where
  "map_raise f [] = Inr []"
| "map_raise f (x # xs) =
     (case f x of
        Inl e \<Rightarrow> Inl e
      | Inr y \<Rightarrow> (case map_raise f xs of Inl e \<Rightarrow> Inl e | Inr ys \<Rightarrow> Inr (y # ys)))"

text \<open>What the handlers do to the outside world, in the order they do it.\<close>

datatype ('f, 'd) event =
    DbConnect
  | DbExecute "'f spatial_query"
  | DbClose
  | HttpPost string nat "'d params"

section \<open>The templates handler\<close>

text \<open>One entry of the JSON array that \<^verbatim>\<open>LandRegisterTemplates.get\<close> returns.\<close>

record 'f layout_map =
  map_width :: 'f
  map_height :: 'f
  map_name :: string

record 'f layout =
  layout_name :: string
  layout_map :: "'f layout_map"
  layout_default :: bool

text \<open>
  Lines 62-64: the first \<^verbatim>\<open>WMS_Capabilities\<close> element of the document, the first
  \<^verbatim>\<open>Capability\<close> below it and the first \<^verbatim>\<open>ComposerTemplates\<close> below that; \<^verbatim>\<open>[0]\<close> on
  an empty node list raises IndexError.
\<close>

definition composer_templates :: "node \<Rightarrow> error + node" where
  "composer_templates capabilities =
     (case item (getElementsByTagName capabilities ''WMS_Capabilities'') 0 of
        Inl e \<Rightarrow> Inl e
      | Inr wms \<Rightarrow>
          (case item (getElementsByTagName wms ''Capability'') 0 of
             Inl e \<Rightarrow> Inl e
           | Inr capability \<Rightarrow> item (getElementsByTagName capability ''ComposerTemplates'') 0))"

text \<open>Lines 66-76: the body of the loop, up to the entry it appends.\<close>

definition layout_entry :: "('f, 'd) env \<Rightarrow> node \<Rightarrow> error + 'f layout" where
  "layout_entry env template =
     (let name = getAttribute template ''name'' in
      case item (getElementsByTagName template ''ComposerMap'') 0 of
        Inl e \<Rightarrow> Inl e
      | Inr composerMap \<Rightarrow>
          (case py_float env (getAttribute composerMap ''width'') of
             Inl e \<Rightarrow> Inl e
           | Inr w \<Rightarrow>
               (case py_float env (getAttribute composerMap ''height'') of
                  Inl e \<Rightarrow> Inl e
                | Inr h \<Rightarrow>
                    Inr \<lparr>layout_name = name,
                         layout_map = \<lparr>map_width = w, map_height = h,
                                       map_name = getAttribute composerMap ''name''\<rparr>,
                         layout_default = (name = DEFAULT_LANDREG_LAYOUT env)\<rparr>)))"

text \<open>
  Lines 65-77: the loop over the templates. It returns the list \<^verbatim>\<open>layouts\<close> as the loop
  leaves it, and the exception that ended the loop, if one did.
\<close>

fun append_layouts ::
  "('f, 'd) env \<Rightarrow> node list \<Rightarrow> 'f layout list \<Rightarrow> 'f layout list \<times> error option" where
  "append_layouts env [] layouts = (layouts, None)"
| "append_layouts env (template # templates) layouts =
     (case layout_entry env template of
        Inl e \<Rightarrow> (layouts, Some e)
      | Inr entry \<Rightarrow> append_layouts env templates (layouts @ [entry]))"

text \<open>Lines 61-77: the body of the \<^verbatim>\<open>try\<close> statement.\<close>

definition try_layouts ::
  "('f, 'd) env \<Rightarrow> string \<Rightarrow> 'f layout list \<Rightarrow> 'f layout list \<times> error option" where
  "try_layouts env text layouts =
     (case parseString env text of
        None \<Rightarrow> (layouts, Some ExpatError)
      | Some capabilities \<Rightarrow>
          (case composer_templates capabilities of
             Inl e \<Rightarrow> (layouts, Some e)
           | Inr templates \<Rightarrow>
               append_layouts env (getElementsByTagName templates ''ComposerTemplate'') layouts))"

text \<open>
  Lines 49-80. The request of line 57 stands before the \<^verbatim>\<open>try\<close>, so its exception leaves
  the handler; the bare \<^verbatim>\<open>except: pass\<close> drops every exception of the \<^verbatim>\<open>try\<close> body and
  the handler returns \<^verbatim>\<open>layouts\<close> as it is by then.
\<close>

definition get :: "('f, 'd) env \<Rightarrow> error + 'f layout list" where
  "get env =
     (let params = [(''SERVICE'', ''WMS''), (''VERSION'', ''1.3.0''),
                    (''REQUEST'', ''GetProjectSettings'')] in
      case requests_get env (project_url env) params of
        Inl msg \<Rightarrow> Inl (RequestException msg)
      | Inr text \<Rightarrow> Inr (fst (try_layouts env text [])))"

section \<open>The print handler\<close>

text \<open>\<^verbatim>\<open>params[k]\<close> where the code goes on to call a string method on the value.\<close>

definition dict_str :: "'d params \<Rightarrow> string \<Rightarrow> error + string" where
  "dict_str params k =
     (case dict_item params k of
        Inl e \<Rightarrow> Inl e
      | Inr (Str s) \<Rightarrow> Inr s
      | Inr (Db v) \<Rightarrow> Inl AttributeError)"

text \<open>
  Lines 107-121, from the pairs that \<^verbatim>\<open>parse_qsl\<close> returns for the request body: the
  defaults, overlaid with the caller's parameters, then every key upper-cased.
\<close>

definition merged_params :: "('f, 'd) env \<Rightarrow> (string \<times> string) list \<Rightarrow> 'd params" where
  "merged_params env pairs =
     (let post_params = dict_of (map (\<lambda>kv. (fst kv, Str (snd kv))) pairs);
          params = [(''SERVICE'', Str ''WMS''), (''VERSION'', Str ''1.3.0''),
                    (''REQUEST'', Str ''GetPrint''), (''FORMAT'', Str ''PDF'')]
      in upper_keys (str_upper env) (dict_update params post_params))"

text \<open>Lines 123-125: LAYERS and OPACITIES.\<close>

definition set_layers :: "('f, 'd) env \<Rightarrow> 'd params \<Rightarrow> error + 'd params" where
  "set_layers env params =
     (let params1 = dict_set ''LAYERS''
                      (Str (getenv env ''LANDREG_PRINT_LAYERS'' ''Grundstuecke'')) params in
      case dict_str params1 ''LAYERS'' of
        Inl e \<Rightarrow> Inl e
      | Inr layers \<Rightarrow>
          Inr (dict_set ''OPACITIES''
                 (Str (join '','' (map (\<lambda>item. ''255'') (split CHR '','' layers)))) params1))"

text \<open>Lines 127-130: the centre of the extent.\<close>

definition extent_center :: "('f, 'd) env \<Rightarrow> 'd params \<Rightarrow> error + 'f \<times> 'f" where
  "extent_center env params =
     (case dict_str params ''EXTENT'' of
        Inl e \<Rightarrow> Inl e
      | Inr s \<Rightarrow>
          (case map_raise (py_float env) (split CHR '','' s) of
             Inl e \<Rightarrow> Inl e
           | Inr extent \<Rightarrow>
               (case item extent 0 of Inl e \<Rightarrow> Inl e | Inr e0 \<Rightarrow>
               (case item extent 2 of Inl e \<Rightarrow> Inl e | Inr e2 \<Rightarrow>
               (case item extent 1 of Inl e \<Rightarrow> Inl e | Inr e1 \<Rightarrow>
               (case item extent 3 of Inl e \<Rightarrow> Inl e | Inr e3 \<Rightarrow>
                  Inr (float_mul env (float_half env) (float_add env e0 e2),
                       float_mul env (float_half env) (float_add env e1 e3))))))))"

text \<open>
  Lines 132-150: the query for the parcel's print information. The connection is closed
  on line 150, which an exception of line 141 never reaches.
\<close>

definition print_info ::
  "('f, 'd) env \<Rightarrow> 'f \<Rightarrow> 'f \<Rightarrow> 'd params \<Rightarrow> ('f, 'd) event list \<times> (error + 'd params)" where
  "print_info env x y params =
     (let table = getenv env ''LANDREG_PRINTINFO_TABLE'' ''agi_nfgeometer_pub.print_info'' in
      case db_connect env of
        Some msg \<Rightarrow> ([], Inl (DatabaseError msg))
      | None \<Rightarrow>
          (let sql = \<lparr>q_table = table, q_x = x, q_y = y, q_srid = 2056\<rparr> in
           case db_execute env sql of
             Inl msg \<Rightarrow> ([DbConnect, DbExecute sql], Inl (DatabaseError msg))
           | Inr sql_result \<Rightarrow>
               ([DbConnect, DbExecute sql, DbClose],
                Inr (case sql_result of
                       None \<Rightarrow> params
                     | Some row \<Rightarrow>
                         dict_set ''GEMEINDE'' (Db (gemeinde row))
                           (dict_set ''KONTAKT'' (Db (kontakt row))
                             (dict_set ''ANSCHRIFT'' (Db (anschrift row))
                               (dict_set ''LIEFERDATUM'' (Db (lieferdatum row))
                                 (dict_set ''NFGEOMETER'' (Db (nfgeometer row)) params))))))))"

text \<open>Lines 152-164: the parameters of the composer map get the prefix of the map.\<close>

definition prefix_param :: "string \<Rightarrow> string \<Rightarrow> 'd params \<Rightarrow> error + 'd params" where
  "prefix_param prefixed k params =
     (case dict_item params k of
        Inl e \<Rightarrow> Inl e
      | Inr v \<Rightarrow> Inr (dict_del k (dict_set prefixed v params)))"

definition prefix_if_present :: "string \<Rightarrow> string \<Rightarrow> 'd params \<Rightarrow> 'd params" where
  "prefix_if_present prefixed k params =
     (case dict_get params k of
        None \<Rightarrow> params
      | Some v \<Rightarrow> dict_del k (dict_set prefixed v params))"

definition prefix_params :: "'d params \<Rightarrow> error + 'd params" where
  "prefix_params params =
     (case prefix_param ''map0:EXTENT'' ''EXTENT'' params of
        Inl e \<Rightarrow> Inl e
      | Inr params1 \<Rightarrow>
          (case prefix_param ''map0:SCALE'' ''SCALE'' params1 of
             Inl e \<Rightarrow> Inl e
           | Inr params2 \<Rightarrow>
               (case prefix_param ''map0:ROTATION'' ''ROTATION'' params2 of
                  Inl e \<Rightarrow> Inl e
                | Inr params3 \<Rightarrow>
                    Inr (prefix_if_present ''map0:GRID_INTERVAL_Y'' ''GRID_INTERVAL_Y''
                          (prefix_if_present ''map0:GRID_INTERVAL_X'' ''GRID_INTERVAL_X''
                             params3)))))"

text \<open>Lines 107-164: the request for the QGIS server, and what the database saw.\<close>

definition build ::
  "('f, 'd) env \<Rightarrow> (string \<times> string) list \<Rightarrow> ('f, 'd) event list \<times> (error + 'd params)" where
  "build env pairs =
     (case set_layers env (merged_params env pairs) of
        Inl e \<Rightarrow> ([], Inl e)
      | Inr params \<Rightarrow>
          (case extent_center env params of
             Inl e \<Rightarrow> ([], Inl e)
           | Inr xy \<Rightarrow>
               (case print_info env (fst xy) (snd xy) params of
                  (events, Inl e) \<Rightarrow> (events, Inl e)
                | (events, Inr params1) \<Rightarrow> (events, prefix_params params1))))"

text \<open>The response of the handler: status, the two headers it sets, and the chunks.\<close>

record response =
  status :: nat
  content_type :: string
  content_disposition :: "string option"
  body :: "string list"

text \<open>
  Lines 166-181: the request is posted with a timeout of 120 seconds and the answer is
  handed on. \<^verbatim>\<open>req.headers['content-type']\<close> raises KeyError when the answer has no such
  header.
\<close>

definition forward ::
  "('f, 'd) env \<Rightarrow> 'd params \<Rightarrow> ('f, 'd) event list \<times> (error + response)" where
  "forward env params =
     (let project = getenv env ''LANDREG_PROJECT'' ''grundbuch'';
          url = project_url env in
      case requests_post env url 120 params of
        Inl msg \<Rightarrow> ([HttpPost url 120 params], Inl (RequestException msg))
      | Inr req \<Rightarrow>
          ([HttpPost url 120 params],
           (case up_content_type req of
              None \<Rightarrow> Inl (KeyError ''content-type'')
            | Some ct \<Rightarrow>
                (let response = \<lparr>status = up_status_code req, content_type = ct,
                                 content_disposition = None, body = up_content req\<rparr> in
                 if ct = ''application/pdf'' then
                   (case dict_str params ''FORMAT'' of
                      Inl e \<Rightarrow> Inl e
                    | Inr format \<Rightarrow>
                        Inr (response\<lparr>content_disposition :=
                               Some (''attachment; filename='' @ project @ ''.'' @ str_lower env format)\<rparr>))
                 else Inr response))))"

text \<open>\<^verbatim>\<open>LandRegisterExtract.post\<close>, lines 102-181.\<close>

definition post ::
  "('f, 'd) env \<Rightarrow> (string \<times> string) list \<Rightarrow> ('f, 'd) event list \<times> (error + response)" where
  "post env pairs =
     (case build env pairs of
        (events, Inl e) \<Rightarrow> (events, Inl e)
      | (events, Inr params) \<Rightarrow>
          (case forward env params of (events1, r) \<Rightarrow> (events @ events1, r)))"

section \<open>An environment for the examples\<close>

text \<open>
  Case mappings for the examples: the letters a-z and A-Z change case and every other
  byte is kept. On ASCII text these agree with Python's \<^verbatim>\<open>str.upper\<close> and \<^verbatim>\<open>str.lower\<close>.
\<close>

definition ascii_upper_char :: "char \<Rightarrow> char" where
  "ascii_upper_char c =
     (let n = (of_char c :: nat) in if 97 \<le> n \<and> n \<le> 122 then char_of (n - 32) else c)"

definition ascii_lower_char :: "char \<Rightarrow> char" where
  "ascii_lower_char c =
     (let n = (of_char c :: nat) in if 65 \<le> n \<and> n \<le> 90 then char_of (n + 32) else c)"

definition ascii_upper :: "string \<Rightarrow> string" where
  "ascii_upper s = map ascii_upper_char s"

definition ascii_lower :: "string \<Rightarrow> string" where
  "ascii_lower s = map ascii_lower_char s"

text \<open>
  A floating-point implementation for the examples: \<open>decimal_float\<close> reads a
  non-empty string of decimal digits, and the arithmetic is that of the rationals. On
  the small whole numbers of the examples Python's \<^verbatim>\<open>float\<close> and its double arithmetic
  give the same values, since those sums and halves are exact.
\<close>

definition digit_of :: "char \<Rightarrow> nat option" where
  "digit_of c =
     (let n = (of_char c :: nat) in if 48 \<le> n \<and> n \<le> 57 then Some (n - 48) else None)"

fun decimal :: "string \<Rightarrow> nat \<Rightarrow> nat option" where
  "decimal [] acc = Some acc"
| "decimal (c # cs) acc =
     (case digit_of c of None \<Rightarrow> None | Some d \<Rightarrow> decimal cs (10 * acc + d))"

definition decimal_float :: "string \<Rightarrow> rat option" where
  "decimal_float s = (if s = [] then None else map_option of_nat (decimal s 0))"

text \<open>
  No environment variable is set, the database has no row for any point, and the QGIS
  server answers every print request with a PDF.
\<close>

definition example_env :: "(rat, string) env" where
  "example_env =
     \<lparr>environ = (\<lambda>name. None),
      str_upper = ascii_upper,
      str_lower = ascii_lower,
      float_of = decimal_float,
      float_add = (\<lambda>a b. a + b),
      float_mul = (\<lambda>a b. a * b),
      float_half = 1 / 2,
      db_connect = None,
      db_execute = (\<lambda>sql. Inr None),
      requests_get = (\<lambda>url params. Inr []),
      requests_post = (\<lambda>url timeout params.
        Inr \<lparr>up_status_code = 200, up_content_type = Some ''application/pdf'',
             up_content = [''%PDF'']\<rparr>),
      parseString = (\<lambda>text. None)\<rparr>"

text \<open>Requests and environments of the examples below.\<close>

definition two_layers_env :: "(rat, string) env" where
  "two_layers_env =
     \<lparr>environ = (\<lambda>name.
        if name = ''LANDREG_PRINT_LAYERS'' then Some ''Grundstuecke,Gebaeude'' else None),
      str_upper = ascii_upper,
      str_lower = ascii_lower,
      float_of = decimal_float,
      float_add = (\<lambda>a b. a + b),
      float_mul = (\<lambda>a b. a * b),
      float_half = 1 / 2,
      db_connect = None,
      db_execute = (\<lambda>sql. Inr None),
      requests_get = (\<lambda>url params. Inr []),
      requests_post = (\<lambda>url timeout params.
        Inr \<lparr>up_status_code = 200, up_content_type = Some ''application/pdf'',
             up_content = [''%PDF'']\<rparr>),
      parseString = (\<lambda>text. None)\<rparr>"

definition grid_pairs :: "(string \<times> string) list" where
  "grid_pairs = [(''template'', ''A4-Hoch''), (''extent'', ''10,20,30,40''), (''scale'', ''1000''),
     (''rotation'', ''0''), (''grid_interval_x'', ''100'')]"

definition grid_request :: "string params" where
  "grid_request =
     [(''SERVICE'', Str ''WMS''), (''VERSION'', Str ''1.3.0''),
      (''REQUEST'', Str ''GetPrint''), (''FORMAT'', Str ''PDF''),
      (''TEMPLATE'', Str ''A4-Hoch''), (''LAYERS'', Str ''Grundstuecke''),
      (''OPACITIES'', Str ''255''), (''map0:EXTENT'', Str ''10,20,30,40''),
      (''map0:SCALE'', Str ''1000''), (''map0:ROTATION'', Str ''0''),
      (''map0:GRID_INTERVAL_X'', Str ''100'')]"

definition two_layers_request :: "string params" where
  "two_layers_request =
     [(''SERVICE'', Str ''WMS''), (''VERSION'', Str ''1.3.0''),
      (''REQUEST'', Str ''GetPrint''), (''FORMAT'', Str ''PDF''),
      (''TEMPLATE'', Str ''A4-Hoch''), (''LAYERS'', Str ''Grundstuecke,Gebaeude''),
      (''OPACITIES'', Str ''255,255''), (''map0:EXTENT'', Str ''10,20,30,40''),
      (''map0:SCALE'', Str ''1000''), (''map0:ROTATION'', Str ''0''),
      (''map0:GRID_INTERVAL_X'', Str ''100'')]"

text \<open>The query of line 57, and the descriptor of a template in the specification's words:
  the template's name, the width, height and name of its first map frame, and whether
  the name is the configured default; none when there is no map frame or a size does
  not parse.\<close>

definition capabilities_request :: "(string, string) dict" where
  "capabilities_request =
     [(''SERVICE'', ''WMS''), (''VERSION'', ''1.3.0''), (''REQUEST'', ''GetProjectSettings'')]"

definition template_descriptor :: "('f, 'd) env \<Rightarrow> node \<Rightarrow> 'f layout option" where
  "template_descriptor env template =
     (case getElementsByTagName template ''ComposerMap'' of
        [] \<Rightarrow> None
      | composerMap # others \<Rightarrow>
          (case float_of env (getAttribute composerMap ''width'') of
             None \<Rightarrow> None
           | Some w \<Rightarrow>
               (case float_of env (getAttribute composerMap ''height'') of
                  None \<Rightarrow> None
                | Some h \<Rightarrow>
                    Some \<lparr>layout_name = getAttribute template ''name'',
                          layout_map = \<lparr>map_width = w, map_height = h,
                                        map_name = getAttribute composerMap ''name''\<rparr>,
                          layout_default =
                            (getAttribute template ''name'' = DEFAULT_LANDREG_LAYOUT env)\<rparr>)))"

text \<open>Capabilities documents of the examples.\<close>

definition a4_template :: node where
  "a4_template =
     Element ''ComposerTemplate'' [(''name'', ''A4-Hoch''), (''width'', ''210''), (''height'', ''297'')]
       [Element ''ComposerMap'' [(''name'', ''map0''), (''width'', ''190''), (''height'', ''250'')] []]"

definition a3_template :: node where
  "a3_template =
     Element ''ComposerTemplate'' [(''name'', ''A3-Quer''), (''width'', ''420''), (''height'', ''297'')]
       [CharacterData '' '',
        Element ''ComposerMap'' [(''name'', ''map0''), (''width'', ''400''), (''height'', ''270'')] []]"

definition label_template :: node where
  "label_template =
     Element ''ComposerTemplate'' [(''name'', ''Legende''), (''width'', ''210''), (''height'', ''297'')]
       [Element ''ComposerLabel'' [(''name'', ''title'')] []]"

definition capabilities_of :: "node list \<Rightarrow> node" where
  "capabilities_of templates =
     Document
       [Element ''WMS_Capabilities'' [(''version'', ''1.3.0'')]
          [Element ''Service'' [] [Element ''Name'' [] [CharacterData ''WMS'']],
           Element ''Capability'' []
             [Element ''ComposerTemplates'' [] templates]]]"

definition capabilities_env :: "node option \<Rightarrow> (rat, string) env" where
  "capabilities_env document =
     example_env\<lparr>requests_get := (\<lambda>url params. Inr ''<WMS_Capabilities/>''),
                 parseString := (\<lambda>text. document)\<rparr>"

definition unreachable_env :: "(rat, string) env" where
  "unreachable_env = example_env\<lparr>requests_get := (\<lambda>url params. Inl ''Connection refused'')\<rparr>"

definition a4_layout :: "rat layout" where
  "a4_layout = \<lparr>layout_name = ''A4-Hoch'',
                 layout_map = \<lparr>map_width = 190, map_height = 250, map_name = ''map0''\<rparr>,
                 layout_default = True\<rparr>"


text \<open>Print requests of the examples, and a database whose query fails.\<close>

definition extent_pairs :: "(string \<times> string) list" where
  "extent_pairs = [(''EXTENT'', ''10,20,30,40''), (''SCALE'', ''1000''), (''ROTATION'', ''0'')]"

definition failing_query_env :: "(rat, string) env" where
  "failing_query_env =
     example_env\<lparr>db_execute := (\<lambda>sql. Inl ''relation print_info does not exist'')\<rparr>"

definition end_to_end_pairs :: "(string \<times> string) list" where
  "end_to_end_pairs = [(''TEMPLATE'', ''A4-Hoch''), (''EXTENT'', ''0,0,10,10''),
     (''SCALE'', ''1000''), (''ROTATION'', ''0'')]"

definition end_to_end_request :: "string params" where
  "end_to_end_request =
     [(''SERVICE'', Str ''WMS''), (''VERSION'', Str ''1.3.0''),
      (''REQUEST'', Str ''GetPrint''), (''FORMAT'', Str ''PDF''),
      (''TEMPLATE'', Str ''A4-Hoch''), (''LAYERS'', Str ''Grundstuecke''),
      (''OPACITIES'', Str ''255''), (''map0:EXTENT'', Str ''0,0,10,10''),
      (''map0:SCALE'', Str ''1000''), (''map0:ROTATION'', Str ''0'')]"

text \<open>The query of lines 135-141 for an extent of at least four numbers.\<close>

definition centre_query :: "('f, 'd) env \<Rightarrow> 'f list \<Rightarrow> 'f spatial_query" where
  "centre_query env extent =
     \<lparr>q_table = getenv env ''LANDREG_PRINTINFO_TABLE'' ''agi_nfgeometer_pub.print_info'',
      q_x = float_mul env (float_half env) (float_add env (extent ! 0) (extent ! 2)),
      q_y = float_mul env (float_half env) (float_add env (extent ! 1) (extent ! 3)),
      q_srid = 2056\<rparr>"

text \<open>A QGIS server that answers with a service exception.\<close>

definition server_error_env :: "(rat, string) env" where
  "server_error_env =
     example_env\<lparr>requests_post := (\<lambda>url timeout params.
        Inr \<lparr>up_status_code = 500, up_content_type = Some ''text/xml; charset=utf-8'',
             up_content = [''<ServiceExceptionReport/>'']\<rparr>)\<rparr>"

text \<open>A QGIS server whose answer has no content-type header.\<close>

definition no_content_type_env :: "(rat, string) env" where
  "no_content_type_env =
     example_env\<lparr>requests_post := (\<lambda>url timeout params.
        Inr \<lparr>up_status_code = 200, up_content_type = None, up_content = [''%PDF'']\<rparr>)\<rparr>"

definition five_floats_pairs :: "(string \<times> string) list" where
  "five_floats_pairs = [(''EXTENT'', ''1,2,3,4,5''), (''SCALE'', ''1000''), (''ROTATION'', ''0'')]"

definition five_floats_request :: "string params" where
  "five_floats_request =
     [(''SERVICE'', Str ''WMS''), (''VERSION'', Str ''1.3.0''),
      (''REQUEST'', Str ''GetPrint''), (''FORMAT'', Str ''PDF''),
      (''LAYERS'', Str ''Grundstuecke''), (''OPACITIES'', Str ''255''),
      (''map0:EXTENT'', Str ''1,2,3,4,5''), (''map0:SCALE'', Str ''1000''),
      (''map0:ROTATION'', Str ''0'')]"

definition no_scale_pairs :: "(string \<times> string) list" where
  "no_scale_pairs = [(''EXTENT'', ''10,20,30,40''), (''ROTATION'', ''0'')]"

definition malformed_pairs :: "(string \<times> string) list" where
  "malformed_pairs = [(''EXTENT'', ''10,20,x,40''), (''ROTATION'', ''0'')]"





section \<open>Key sets of the print request\<close>

text \<open>The keys that lines 153-164 move under the prefix of the composer map.\<close>

definition map_keys :: "string set" where
  "map_keys = {''EXTENT'', ''SCALE'', ''ROTATION'', ''GRID_INTERVAL_X'', ''GRID_INTERVAL_Y''}"

text \<open>The keys that lines 144-148 fill from the row of the database.\<close>

definition enrichment_keys :: "string set" where
  "enrichment_keys = {''NFGEOMETER'', ''LIEFERDATUM'', ''ANSCHRIFT'', ''KONTAKT'', ''GEMEINDE''}"

section \<open>Facts about dictionaries and strings\<close>

lemma dict_get_set: "dict_get (dict_set k v d) k' = (if k' = k then Some v else dict_get d k')"
  by (induction d) (auto simp: dict_get_def)

lemma dict_get_del: "dict_get (dict_del k d) k' = (if k' = k then None else dict_get d k')"
  by (induction d) (auto simp: dict_get_def dict_del_def)

lemma split_not_Nil: "split sep s \<noteq> []"
  by (induction s) (auto split: list.splits)

lemma split_no_sep: "sep \<notin> set w \<Longrightarrow> split sep w = [w]"
  by (induction w) (auto split: list.splits)

lemma split_append_sep:
  "sep \<notin> set w \<Longrightarrow> split sep (w @ sep # rest) = w # split sep rest"
  by (induction w) auto

lemma split_join_replicate:
  "sep \<notin> set w \<Longrightarrow> split sep (join [sep] (replicate (Suc n) w)) = replicate (Suc n) w"
proof (induction n)
  case 0
  then show ?case by (simp add: split_no_sep)
next
  case (Suc n)
  then show ?case by (simp add: split_append_sep)
qed

lemma of_char_ascii_upper_char:
  "\<not> (97 \<le> (of_char (ascii_upper_char c) :: nat) \<and> (of_char (ascii_upper_char c) :: nat) \<le> 122)"
  by (auto simp: ascii_upper_char_def Let_def)

lemma ascii_upper_not_lower:
  "97 \<le> (of_char c :: nat) \<Longrightarrow> (of_char c :: nat) \<le> 122 \<Longrightarrow> c \<notin> set (ascii_upper s)"
  using of_char_ascii_upper_char by (auto simp: ascii_upper_def)

lemma ascii_upper_no_m: "CHR ''m'' \<notin> set (ascii_upper s)"
  by (rule ascii_upper_not_lower) simp_all

lemma example_env_upper_no_m: "\<forall>k. CHR ''m'' \<notin> set (str_upper example_env k)"
  by (simp add: example_env_def ascii_upper_no_m)

section \<open>The stages of the print request\<close>

lemma keys_dict_set: "fst ` set (dict_set k v d) = insert k (fst ` set d)"
  by (induction k v d rule: dict_set.induct) (simp_all add: insert_commute)

lemma keys_upper_keys_aux:
  "fst ` set (foldl (\<lambda>acc kv. dict_set (up (fst kv)) (snd kv) acc) acc d)
     = fst ` set acc \<union> up ` fst ` set d"
  by (induction d arbitrary: acc) (auto simp: keys_dict_set)

lemma keys_upper_keys: "fst ` set (upper_keys up d) = up ` fst ` set d"
  by (simp add: upper_keys_def keys_upper_keys_aux)

lemma dict_get_None_iff: "dict_get d k = None \<longleftrightarrow> k \<notin> fst ` set d"
  by (simp add: dict_get_def map_of_eq_None_iff)

lemma upper_keys_excluded_char:
  "\<forall>k. c \<notin> set (up k) \<Longrightarrow> c \<in> set j \<Longrightarrow> dict_get (upper_keys up d) j = None"
  by (auto simp: dict_get_None_iff keys_upper_keys)

lemma merged_params_map0:
  "\<forall>k. CHR ''m'' \<notin> set (str_upper env k) \<Longrightarrow>
   dict_get (merged_params env pairs) (CHR ''m'' # k) = None"
  unfolding merged_params_def Let_def
  by (rule upper_keys_excluded_char [of "CHR ''m''"]) simp_all

lemma dict_str_set_Str: "dict_str (dict_set k (Str s) d) k = Inr s"
  by (simp add: dict_str_def dict_item_def dict_get_set)

lemma set_layers_eq:
  "set_layers env p =
     Inr (dict_set ''OPACITIES''
            (Str (join '','' (map (\<lambda>item. ''255'')
               (split CHR '','' (getenv env ''LANDREG_PRINT_LAYERS'' ''Grundstuecke'')))))
            (dict_set ''LAYERS'' (Str (getenv env ''LANDREG_PRINT_LAYERS'' ''Grundstuecke'')) p))"
  by (simp add: set_layers_def Let_def dict_str_set_Str)

lemma set_layers_get:
  "set_layers env p = Inr p1 \<Longrightarrow> k \<noteq> ''LAYERS'' \<Longrightarrow> k \<noteq> ''OPACITIES'' \<Longrightarrow>
   dict_get p1 k = dict_get p k"
  by (auto simp: set_layers_eq dict_get_set)

lemma print_info_get:
  "snd (print_info env x y p) = Inr p1 \<Longrightarrow> k \<notin> enrichment_keys \<Longrightarrow> dict_get p1 k = dict_get p k"
  by (auto simp: print_info_def Let_def dict_get_set enrichment_keys_def
      split: option.splits sum.splits)

lemma prefix_param_get:
  "prefix_param k' k p = Inr r \<Longrightarrow> k' \<noteq> k \<Longrightarrow>
   dict_get p k \<noteq> None \<and>
   dict_get r j = (if j = k then None else if j = k' then dict_get p k else dict_get p j)"
  by (auto simp: prefix_param_def dict_item_def dict_get_set dict_get_del split: option.splits)

lemma prefix_if_present_get:
  "k' \<noteq> k \<Longrightarrow>
   dict_get (prefix_if_present k' k p) j =
     (if j = k then None
      else if j = k' then (case dict_get p k of None \<Rightarrow> dict_get p k' | Some v \<Rightarrow> Some v)
      else dict_get p j)"
  by (auto simp: prefix_if_present_def dict_get_set dict_get_del split: option.splits)

lemma prefix_params_Inr:
  "prefix_params p = Inr r \<Longrightarrow>
   \<exists>p1 p2 p3. prefix_param ''map0:EXTENT'' ''EXTENT'' p = Inr p1 \<and>
     prefix_param ''map0:SCALE'' ''SCALE'' p1 = Inr p2 \<and>
     prefix_param ''map0:ROTATION'' ''ROTATION'' p2 = Inr p3 \<and>
     r = prefix_if_present ''map0:GRID_INTERVAL_Y'' ''GRID_INTERVAL_Y''
           (prefix_if_present ''map0:GRID_INTERVAL_X'' ''GRID_INTERVAL_X'' p3)"
  by (auto simp: prefix_params_def split: sum.splits)

lemma build_Inr:
  "snd (build env pairs) = Inr r \<Longrightarrow>
   \<exists>p xy p1. set_layers env (merged_params env pairs) = Inr p \<and> extent_center env p = Inr xy \<and>
     snd (print_info env (fst xy) (snd xy) p) = Inr p1 \<and> prefix_params p1 = Inr r"
  by (auto simp: build_def split: sum.splits prod.splits)

lemma prefix_params_present:
  assumes "prefix_params p = Inr r"
  shows "dict_get p ''EXTENT'' \<noteq> None" "dict_get p ''SCALE'' \<noteq> None"
    "dict_get p ''ROTATION'' \<noteq> None"
proof -
  from prefix_params_Inr [OF assms] obtain p1 p2 p3 where
    1: "prefix_param ''map0:EXTENT'' ''EXTENT'' p = Inr p1" and
    2: "prefix_param ''map0:SCALE'' ''SCALE'' p1 = Inr p2" and
    3: "prefix_param ''map0:ROTATION'' ''ROTATION'' p2 = Inr p3"
    by blast
  show "dict_get p ''EXTENT'' \<noteq> None" using prefix_param_get [OF 1] by simp
  have "dict_get p1 ''SCALE'' \<noteq> None" using prefix_param_get [OF 2] by simp
  then show "dict_get p ''SCALE'' \<noteq> None" using prefix_param_get [OF 1, of "''SCALE''"] by simp
  have "dict_get p2 ''ROTATION'' \<noteq> None" using prefix_param_get [OF 3] by simp
  then have "dict_get p1 ''ROTATION'' \<noteq> None"
    using prefix_param_get [OF 2, of "''ROTATION''"] by simp
  then show "dict_get p ''ROTATION'' \<noteq> None"
    using prefix_param_get [OF 1, of "''ROTATION''"] by simp
qed

lemma prefix_params_get:
  assumes "prefix_params p = Inr r"
  shows "dict_get r j =
     (if j \<in> map_keys then None
      else if j = ''map0:EXTENT'' then dict_get p ''EXTENT''
      else if j = ''map0:SCALE'' then dict_get p ''SCALE''
      else if j = ''map0:ROTATION'' then dict_get p ''ROTATION''
      else if j = ''map0:GRID_INTERVAL_X'' then
        (case dict_get p ''GRID_INTERVAL_X'' of
           None \<Rightarrow> dict_get p ''map0:GRID_INTERVAL_X'' | Some v \<Rightarrow> Some v)
      else if j = ''map0:GRID_INTERVAL_Y'' then
        (case dict_get p ''GRID_INTERVAL_Y'' of
           None \<Rightarrow> dict_get p ''map0:GRID_INTERVAL_Y'' | Some v \<Rightarrow> Some v)
      else dict_get p j)"
proof -
  from prefix_params_Inr [OF assms] obtain p1 p2 p3 where
    1: "prefix_param ''map0:EXTENT'' ''EXTENT'' p = Inr p1" and
    2: "prefix_param ''map0:SCALE'' ''SCALE'' p1 = Inr p2" and
    3: "prefix_param ''map0:ROTATION'' ''ROTATION'' p2 = Inr p3" and
    r: "r = prefix_if_present ''map0:GRID_INTERVAL_Y'' ''GRID_INTERVAL_Y''
           (prefix_if_present ''map0:GRID_INTERVAL_X'' ''GRID_INTERVAL_X'' p3)"
    by blast
  have g1: "\<And>j. dict_get p1 j = (if j = ''EXTENT'' then None
      else if j = ''map0:EXTENT'' then dict_get p ''EXTENT'' else dict_get p j)"
    using prefix_param_get [OF 1] by simp
  have g2: "\<And>j. dict_get p2 j = (if j = ''SCALE'' then None
      else if j = ''map0:SCALE'' then dict_get p1 ''SCALE'' else dict_get p1 j)"
    using prefix_param_get [OF 2] by simp
  have g3: "\<And>j. dict_get p3 j = (if j = ''ROTATION'' then None
      else if j = ''map0:ROTATION'' then dict_get p2 ''ROTATION'' else dict_get p2 j)"
    using prefix_param_get [OF 3] by simp
  show ?thesis
    unfolding r by (simp add: prefix_if_present_get g3 g2 g1 map_keys_def split: option.splits)
qed

section \<open>The request that build returns\<close>

lemma build_grid_pairs: "snd (build example_env grid_pairs) = Inr grid_request"
  by code_simp

lemma build_two_layers: "snd (build two_layers_env grid_pairs) = Inr two_layers_request"
  by code_simp

lemma build_get:
  assumes "snd (build env pairs) = Inr r" and "j \<notin> enrichment_keys"
  shows "\<exists>p. set_layers env (merged_params env pairs) = Inr p \<and> dict_get r j =
     (if j \<in> map_keys then None
      else if j = ''map0:EXTENT'' then dict_get p ''EXTENT''
      else if j = ''map0:SCALE'' then dict_get p ''SCALE''
      else if j = ''map0:ROTATION'' then dict_get p ''ROTATION''
      else if j = ''map0:GRID_INTERVAL_X'' then
        (case dict_get p ''GRID_INTERVAL_X'' of
           None \<Rightarrow> dict_get p ''map0:GRID_INTERVAL_X'' | Some v \<Rightarrow> Some v)
      else if j = ''map0:GRID_INTERVAL_Y'' then
        (case dict_get p ''GRID_INTERVAL_Y'' of
           None \<Rightarrow> dict_get p ''map0:GRID_INTERVAL_Y'' | Some v \<Rightarrow> Some v)
      else dict_get p j)"
proof -
  from build_Inr [OF assms(1)] obtain p xy p1 where
    p: "set_layers env (merged_params env pairs) = Inr p" and
    p1: "snd (print_info env (fst xy) (snd xy) p) = Inr p1" and
    r: "prefix_params p1 = Inr r"
    by blast
  have same: "\<And>k. k \<notin> enrichment_keys \<Longrightarrow> dict_get p1 k = dict_get p k"
    using print_info_get [OF p1] by simp
  have e: "''EXTENT'' \<notin> enrichment_keys" "''SCALE'' \<notin> enrichment_keys"
    "''ROTATION'' \<notin> enrichment_keys" "''GRID_INTERVAL_X'' \<notin> enrichment_keys"
    "''GRID_INTERVAL_Y'' \<notin> enrichment_keys" "''map0:GRID_INTERVAL_X'' \<notin> enrichment_keys"
    "''map0:GRID_INTERVAL_Y'' \<notin> enrichment_keys"
    by (simp_all add: enrichment_keys_def)
  have "dict_get r j =
     (if j \<in> map_keys then None
      else if j = ''map0:EXTENT'' then dict_get p ''EXTENT''
      else if j = ''map0:SCALE'' then dict_get p ''SCALE''
      else if j = ''map0:ROTATION'' then dict_get p ''ROTATION''
      else if j = ''map0:GRID_INTERVAL_X'' then
        (case dict_get p ''GRID_INTERVAL_X'' of
           None \<Rightarrow> dict_get p ''map0:GRID_INTERVAL_X'' | Some v \<Rightarrow> Some v)
      else if j = ''map0:GRID_INTERVAL_Y'' then
        (case dict_get p ''GRID_INTERVAL_Y'' of
           None \<Rightarrow> dict_get p ''map0:GRID_INTERVAL_Y'' | Some v \<Rightarrow> Some v)
      else dict_get p j)"
    using assms(2) by (simp add: prefix_params_get [OF r] same e split: option.splits)
  with p show ?thesis by blast
qed

lemma build_get_merged:
  assumes "snd (build env pairs) = Inr r" and "j \<notin> enrichment_keys"
    and "j \<noteq> ''LAYERS''" and "j \<noteq> ''OPACITIES''"
  shows "dict_get r j =
     (if j \<in> map_keys then None
      else if j = ''map0:EXTENT'' then dict_get (merged_params env pairs) ''EXTENT''
      else if j = ''map0:SCALE'' then dict_get (merged_params env pairs) ''SCALE''
      else if j = ''map0:ROTATION'' then dict_get (merged_params env pairs) ''ROTATION''
      else if j = ''map0:GRID_INTERVAL_X'' then
        (case dict_get (merged_params env pairs) ''GRID_INTERVAL_X'' of
           None \<Rightarrow> dict_get (merged_params env pairs) ''map0:GRID_INTERVAL_X''
         | Some v \<Rightarrow> Some v)
      else if j = ''map0:GRID_INTERVAL_Y'' then
        (case dict_get (merged_params env pairs) ''GRID_INTERVAL_Y'' of
           None \<Rightarrow> dict_get (merged_params env pairs) ''map0:GRID_INTERVAL_Y''
         | Some v \<Rightarrow> Some v)
      else dict_get (merged_params env pairs) j)"
proof -
  from build_get [OF assms(1,2)] obtain p where
    p: "set_layers env (merged_params env pairs) = Inr p" and
    g: "dict_get r j =
     (if j \<in> map_keys then None
      else if j = ''map0:EXTENT'' then dict_get p ''EXTENT''
      else if j = ''map0:SCALE'' then dict_get p ''SCALE''
      else if j = ''map0:ROTATION'' then dict_get p ''ROTATION''
      else if j = ''map0:GRID_INTERVAL_X'' then
        (case dict_get p ''GRID_INTERVAL_X'' of
           None \<Rightarrow> dict_get p ''map0:GRID_INTERVAL_X'' | Some v \<Rightarrow> Some v)
      else if j = ''map0:GRID_INTERVAL_Y'' then
        (case dict_get p ''GRID_INTERVAL_Y'' of
           None \<Rightarrow> dict_get p ''map0:GRID_INTERVAL_Y'' | Some v \<Rightarrow> Some v)
      else dict_get p j)"
    by blast
  show ?thesis
    unfolding g using assms(3,4) by (simp add: set_layers_get [OF p] split: option.splits)
qed

lemma build_present:
  fixes r :: "'d params"
  assumes "snd (build env pairs) = Inr r"
  shows "dict_get (merged_params env pairs :: 'd params) ''EXTENT'' \<noteq> None"
    "dict_get (merged_params env pairs :: 'd params) ''SCALE'' \<noteq> None"
    "dict_get (merged_params env pairs :: 'd params) ''ROTATION'' \<noteq> None"
proof -
  from build_Inr [OF assms(1)] obtain p xy p1 where
    p: "set_layers env (merged_params env pairs) = Inr p" and
    p1: "snd (print_info env (fst xy) (snd xy) p) = Inr p1" and
    r: "prefix_params p1 = Inr r"
    by blast
  have same: "\<And>k. k \<notin> enrichment_keys \<Longrightarrow> k \<noteq> ''LAYERS'' \<Longrightarrow> k \<noteq> ''OPACITIES'' \<Longrightarrow>
      dict_get p1 k = dict_get (merged_params env pairs) k"
    using print_info_get [OF p1] set_layers_get [OF p] by simp
  show "dict_get (merged_params env pairs :: 'd params) ''EXTENT'' \<noteq> None"
    using prefix_params_present(1) [OF r] same [of "''EXTENT''"] by (simp add: enrichment_keys_def)
  show "dict_get (merged_params env pairs :: 'd params) ''SCALE'' \<noteq> None"
    using prefix_params_present(2) [OF r] same [of "''SCALE''"] by (simp add: enrichment_keys_def)
  show "dict_get (merged_params env pairs :: 'd params) ''ROTATION'' \<noteq> None"
    using prefix_params_present(3) [OF r] same [of "''ROTATION''"] by (simp add: enrichment_keys_def)
qed

text \<open>
  Claim C5. Whenever \<open>build\<close> succeeds, the request holds \<open>map0:EXTENT\<close>, \<open>map0:SCALE\<close> and
  \<open>map0:ROTATION\<close> with the values that \<open>EXTENT\<close>, \<open>SCALE\<close> and \<open>ROTATION\<close> had in the merged,
  upper-cased parameters, and holds none of the bare keys \<open>EXTENT\<close>, \<open>SCALE\<close>, \<open>ROTATION\<close>,
  \<open>GRID_INTERVAL_X\<close>, \<open>GRID_INTERVAL_Y\<close>. A prefixed grid key has the value of the bare grid
  key when that was present, and otherwise what the merged parameters had under the
  prefixed key itself. Upper-casing never yields the lower-case letter m (Python's
  \<^verbatim>\<open>str.upper\<close> yields no lower-case ASCII letter), so the merged parameters have no key
  that starts with \<open>map0:\<close>, and the grid keys are renamed exactly when they are present.
\<close>

theorem build_prefixes_map_parameters:
  assumes "snd (build env pairs) = Inr r"
  shows "dict_get r ''map0:EXTENT'' = dict_get (merged_params env pairs) ''EXTENT'' \<and>
     dict_get r ''map0:SCALE'' = dict_get (merged_params env pairs) ''SCALE'' \<and>
     dict_get r ''map0:ROTATION'' = dict_get (merged_params env pairs) ''ROTATION'' \<and>
     dict_get r ''map0:EXTENT'' \<noteq> None \<and> dict_get r ''map0:SCALE'' \<noteq> None \<and>
     dict_get r ''map0:ROTATION'' \<noteq> None \<and>
     dict_get r ''EXTENT'' = None \<and> dict_get r ''SCALE'' = None \<and>
     dict_get r ''ROTATION'' = None \<and>
     dict_get r ''GRID_INTERVAL_X'' = None \<and> dict_get r ''GRID_INTERVAL_Y'' = None \<and>
     dict_get r ''map0:GRID_INTERVAL_X'' =
       (case dict_get (merged_params env pairs) ''GRID_INTERVAL_X'' of
          None \<Rightarrow> dict_get (merged_params env pairs) ''map0:GRID_INTERVAL_X''
        | Some v \<Rightarrow> Some v) \<and>
     dict_get r ''map0:GRID_INTERVAL_Y'' =
       (case dict_get (merged_params env pairs) ''GRID_INTERVAL_Y'' of
          None \<Rightarrow> dict_get (merged_params env pairs) ''map0:GRID_INTERVAL_Y''
        | Some v \<Rightarrow> Some v) \<and>
     ((\<forall>k. CHR ''m'' \<notin> set (str_upper env k)) \<longrightarrow>
        dict_get r ''map0:GRID_INTERVAL_X'' = dict_get (merged_params env pairs) ''GRID_INTERVAL_X'' \<and>
        dict_get r ''map0:GRID_INTERVAL_Y'' = dict_get (merged_params env pairs) ''GRID_INTERVAL_Y'')"
proof -
  have g: "dict_get r ''map0:EXTENT'' = dict_get (merged_params env pairs) ''EXTENT''"
    "dict_get r ''map0:SCALE'' = dict_get (merged_params env pairs) ''SCALE''"
    "dict_get r ''map0:ROTATION'' = dict_get (merged_params env pairs) ''ROTATION''"
    "dict_get r ''EXTENT'' = None" "dict_get r ''SCALE'' = None" "dict_get r ''ROTATION'' = None"
    "dict_get r ''GRID_INTERVAL_X'' = None" "dict_get r ''GRID_INTERVAL_Y'' = None"
    by (simp_all add: build_get_merged [OF assms] enrichment_keys_def map_keys_def)
  have x: "dict_get r ''map0:GRID_INTERVAL_X'' =
       (case dict_get (merged_params env pairs) ''GRID_INTERVAL_X'' of
          None \<Rightarrow> dict_get (merged_params env pairs) ''map0:GRID_INTERVAL_X''
        | Some v \<Rightarrow> Some v)"
    by (simp add: build_get_merged [OF assms] enrichment_keys_def map_keys_def)
  have y: "dict_get r ''map0:GRID_INTERVAL_Y'' =
       (case dict_get (merged_params env pairs) ''GRID_INTERVAL_Y'' of
          None \<Rightarrow> dict_get (merged_params env pairs) ''map0:GRID_INTERVAL_Y''
        | Some v \<Rightarrow> Some v)"
    by (simp add: build_get_merged [OF assms] enrichment_keys_def map_keys_def)
  have n: "dict_get r ''map0:EXTENT'' \<noteq> None" "dict_get r ''map0:SCALE'' \<noteq> None"
    "dict_get r ''map0:ROTATION'' \<noteq> None"
    using build_present [OF assms] g(1,2,3) by simp_all
  have h: "(\<forall>k. CHR ''m'' \<notin> set (str_upper env k)) \<longrightarrow>
        dict_get r ''map0:GRID_INTERVAL_X'' = dict_get (merged_params env pairs) ''GRID_INTERVAL_X'' \<and>
        dict_get r ''map0:GRID_INTERVAL_Y'' = dict_get (merged_params env pairs) ''GRID_INTERVAL_Y''"
  proof
    assume u: "\<forall>k. CHR ''m'' \<notin> set (str_upper env k)"
    have "dict_get (merged_params env pairs) ''map0:GRID_INTERVAL_X'' = None"
      "dict_get (merged_params env pairs) ''map0:GRID_INTERVAL_Y'' = None"
      using merged_params_map0 [OF u, of pairs] by simp_all
    then show "dict_get r ''map0:GRID_INTERVAL_X''
        = dict_get (merged_params env pairs) ''GRID_INTERVAL_X'' \<and>
      dict_get r ''map0:GRID_INTERVAL_Y'' = dict_get (merged_params env pairs) ''GRID_INTERVAL_Y''"
      unfolding x y by (simp split: option.splits)
  qed
  from g n x y h show ?thesis by (intro conjI)
qed

theorem build_prefixes_map_parameters_witness:
  "snd (build example_env grid_pairs) = Inr grid_request \<and>
   dict_get grid_request ''map0:EXTENT'' = Some (Str ''10,20,30,40'') \<and>
   dict_get grid_request ''map0:GRID_INTERVAL_X'' = Some (Str ''100'') \<and>
   dict_get grid_request ''map0:GRID_INTERVAL_Y'' = None \<and>
   dict_get grid_request ''EXTENT'' = None \<and>
   dict_get grid_request ''map0:EXTENT'' = dict_get (merged_params example_env grid_pairs) ''EXTENT'' \<and>
   dict_get grid_request ''map0:GRID_INTERVAL_Y'' =
     dict_get (merged_params example_env grid_pairs) ''GRID_INTERVAL_Y''"
proof -
  have 1: "dict_get grid_request ''map0:EXTENT'' = Some (Str ''10,20,30,40'')" by code_simp
  have 2: "dict_get grid_request ''map0:GRID_INTERVAL_X'' = Some (Str ''100'')" by code_simp
  have 3: "dict_get grid_request ''map0:GRID_INTERVAL_Y'' = None" by code_simp
  have 4: "dict_get grid_request ''EXTENT'' = None" by code_simp
  from build_prefixes_map_parameters [OF build_grid_pairs] example_env_upper_no_m
  have 5: "dict_get grid_request ''map0:EXTENT'' = dict_get (merged_params example_env grid_pairs) ''EXTENT''"
    and 6: "dict_get grid_request ''map0:GRID_INTERVAL_Y'' =
      dict_get (merged_params example_env grid_pairs) ''GRID_INTERVAL_Y''"
    by blast+
  from build_grid_pairs 1 2 3 4 5 6 show ?thesis by blast
qed

text \<open>
  Claim C6. Whenever \<open>build\<close> succeeds, \<open>LAYERS\<close> is the configured list of print layers and
  \<open>OPACITIES\<close> splits at its commas into as many entries as \<open>LAYERS\<close> does, each of them the
  string 255.
\<close>

theorem build_layers_opacities:
  assumes "snd (build env pairs) = Inr r"
  shows "dict_get r ''LAYERS'' = Some (Str (getenv env ''LANDREG_PRINT_LAYERS'' ''Grundstuecke'')) \<and>
     (\<exists>opacities. dict_get r ''OPACITIES'' = Some (Str opacities) \<and>
        split CHR '','' opacities =
          replicate (length (split CHR '','' (getenv env ''LANDREG_PRINT_LAYERS'' ''Grundstuecke'')))
            ''255'')"
proof -
  let ?L = "getenv env ''LANDREG_PRINT_LAYERS'' ''Grundstuecke''"
  let ?O = "join '','' (map (\<lambda>item. ''255'') (split CHR '','' ?L))"
  have l: "dict_get r ''LAYERS'' = Some (Str ?L)"
    using build_get [OF assms, of "''LAYERS''"]
    by (auto simp: enrichment_keys_def map_keys_def set_layers_eq dict_get_set)
  have o: "dict_get r ''OPACITIES'' = Some (Str ?O)"
    using build_get [OF assms, of "''OPACITIES''"]
    by (auto simp: enrichment_keys_def map_keys_def set_layers_eq dict_get_set)
  obtain n where n: "length (split CHR '','' ?L) = Suc n"
    using split_not_Nil [of "CHR '',''" ?L] by (cases "split CHR '','' ?L") auto
  have "split CHR '','' ?O = replicate (Suc n) ''255''"
    using split_join_replicate [of "CHR '',''" "''255''" n]
    by (simp add: map_replicate_const n del: replicate_Suc)
  with l o n show ?thesis by simp
qed

theorem build_layers_opacities_witness:
  "snd (build two_layers_env grid_pairs) = Inr two_layers_request \<and>
   dict_get two_layers_request ''LAYERS'' =
     Some (Str (getenv two_layers_env ''LANDREG_PRINT_LAYERS'' ''Grundstuecke'')) \<and>
   getenv two_layers_env ''LANDREG_PRINT_LAYERS'' ''Grundstuecke'' = ''Grundstuecke,Gebaeude'' \<and>
   dict_get two_layers_request ''OPACITIES'' = Some (Str ''255,255'') \<and>
   split CHR '','' ''255,255'' = [''255'', ''255'']"
proof -
  have 1: "getenv two_layers_env ''LANDREG_PRINT_LAYERS'' ''Grundstuecke'' = ''Grundstuecke,Gebaeude''"
    by code_simp
  have 2: "dict_get two_layers_request ''OPACITIES'' = Some (Str ''255,255'')" by code_simp
  have 3: "split CHR '','' ''255,255'' = [''255'', ''255'']" by code_simp
  from build_layers_opacities [OF build_two_layers]
  have 4: "dict_get two_layers_request ''LAYERS'' =
     Some (Str (getenv two_layers_env ''LANDREG_PRINT_LAYERS'' ''Grundstuecke''))"
    by blast
  from build_two_layers 1 2 3 4 show ?thesis by blast
qed

section \<open>The templates handler: properties\<close>

lemma item_0: "item xs 0 = (case xs of [] \<Rightarrow> Inl IndexError | x # others \<Rightarrow> Inr x)"
  by (cases xs) (simp_all add: item_def)

lemma layout_entry_descriptor:
  "layout_entry env t =
     (case template_descriptor env t of
        None \<Rightarrow> layout_entry env t
      | Some d \<Rightarrow> Inr d)"
  by (auto simp: layout_entry_def template_descriptor_def item_0 py_float_def Let_def
      split: list.splits option.splits)

lemma layout_entry_Inl:
  "template_descriptor env t = None \<Longrightarrow> \<exists>e. layout_entry env t = Inl e"
  by (auto simp: layout_entry_def template_descriptor_def item_0 py_float_def Let_def
      split: list.splits option.splits)

lemma layout_entry_Inr:
  "template_descriptor env t = Some d \<Longrightarrow> layout_entry env t = Inr d"
  using layout_entry_descriptor [of env t] by simp

lemma append_layouts_prefix:
  "\<exists>ls. fst (append_layouts env ts acc) = acc @ ls \<and>
     map Some ls = map (template_descriptor env)
       (takeWhile (\<lambda>t. template_descriptor env t \<noteq> None) ts)"
proof (induction ts arbitrary: acc)
  case Nil
  then show ?case by simp
next
  case (Cons t ts)
  show ?case
  proof (cases "template_descriptor env t")
    case None
    then show ?thesis using layout_entry_Inl [OF None] by auto
  next
    case (Some d)
    from Cons [of "acc @ [d]"] obtain ls where
      "fst (append_layouts env ts (acc @ [d])) = (acc @ [d]) @ ls"
      "map Some ls = map (template_descriptor env)
         (takeWhile (\<lambda>t. template_descriptor env t \<noteq> None) ts)"
      by blast
    then show ?thesis using Some layout_entry_Inr [OF Some]
      by (intro exI [of _ "d # ls"]) simp
  qed
qed

lemma get_Inr:
  assumes "requests_get env (project_url env) capabilities_request = Inr text"
  shows "get env = Inr (fst (try_layouts env text []))"
  using assms by (simp add: get_def capabilities_request_def)

lemma get_Inl:
  assumes "requests_get env (project_url env) capabilities_request = Inl msg"
  shows "get env = Inl (RequestException msg)"
  using assms by (simp add: get_def capabilities_request_def)

lemma try_layouts_templates:
  assumes "parseString env text = Some capabilities"
    and "composer_templates capabilities = Inr templates"
  shows "\<exists>ls. fst (try_layouts env text []) = ls \<and>
     map Some ls = map (template_descriptor env)
       (takeWhile (\<lambda>t. template_descriptor env t \<noteq> None)
          (getElementsByTagName templates ''ComposerTemplate''))"
  using assms append_layouts_prefix [of env "getElementsByTagName templates ''ComposerTemplate''" "[]"]
  by (simp add: try_layouts_def)

lemma try_layouts_empty:
  "parseString env text = None \<Longrightarrow> fst (try_layouts env text []) = []"
  "parseString env text = Some capabilities \<Longrightarrow> composer_templates capabilities = Inl e \<Longrightarrow>
     fst (try_layouts env text []) = []"
  by (simp_all add: try_layouts_def)


lemma get_layouts:
  assumes "requests_get env (project_url env) capabilities_request = Inr text"
  shows "\<exists>ls. get env = Inr ls \<and>
     map Some ls =
       (case parseString env text of
          None \<Rightarrow> []
        | Some capabilities \<Rightarrow>
            (case composer_templates capabilities of
               Inl e \<Rightarrow> []
             | Inr templates \<Rightarrow>
                 map (template_descriptor env)
                   (takeWhile (\<lambda>t. template_descriptor env t \<noteq> None)
                      (getElementsByTagName templates ''ComposerTemplate''))))"
proof (cases "parseString env text")
  case None
  then show ?thesis using get_Inr [OF assms] try_layouts_empty(1) [OF None] by simp
next
  case (Some capabilities)
  show ?thesis
  proof (cases "composer_templates capabilities")
    case (Inl e)
    then show ?thesis
      using get_Inr [OF assms] try_layouts_empty(2) [OF Some Inl] Some by simp
  next
    case (Inr templates)
    then show ?thesis
      using get_Inr [OF assms] try_layouts_templates [OF Some Inr] Some by simp
  qed
qed

text \<open>
  Claim C2, as the code has it. Once the capabilities are fetched, \<open>get\<close> always returns a
  list and never raises. The list is empty when the text is no XML or when the
  \<open>WMS_Capabilities\<close>, \<open>Capability\<close>, \<open>ComposerTemplates\<close> chain is broken. Otherwise it holds the
  descriptors of the templates that stand before the first template without a map frame
  of parseable size: the entries appended before the exception stay in the answer.
\<close>

theorem get_lenient_parse:
  assumes "requests_get env (project_url env) capabilities_request = Inr text"
  shows "\<exists>ls. get env = Inr ls \<and>
     map Some ls =
       (case parseString env text of
          None \<Rightarrow> []
        | Some capabilities \<Rightarrow>
            (case composer_templates capabilities of
               Inl e \<Rightarrow> []
             | Inr templates \<Rightarrow>
                 map (template_descriptor env)
                   (takeWhile (\<lambda>t. template_descriptor env t \<noteq> None)
                      (getElementsByTagName templates ''ComposerTemplate''))))"
  using get_layouts [OF assms] .

lemma fetch_capabilities_env:
  "requests_get (capabilities_env document) (project_url (capabilities_env document))
     capabilities_request = Inr ''<WMS_Capabilities/>''"
  by (simp add: capabilities_env_def)

text \<open>
  The claim as stated fails: the second of three templates has no \<open>ComposerMap\<close>, and the
  handler answers with the descriptor of the first instead of the empty list.
\<close>

theorem get_partial_list_counterexample:
  "get (capabilities_env (Some (capabilities_of [a4_template, label_template, a3_template])))
     = Inr [a4_layout] \<and>
   getElementsByTagName label_template ''ComposerMap'' = []"
  by code_simp

text \<open>
  The three cases at concrete documents: a defective second template, text that does not
  parse, and a document without \<open>WMS_Capabilities\<close>.
\<close>

theorem get_lenient_parse_witness:
  "requests_get (capabilities_env (Some (capabilities_of [a4_template, label_template, a3_template])))
     (project_url (capabilities_env (Some (capabilities_of [a4_template, label_template, a3_template]))))
     capabilities_request = Inr ''<WMS_Capabilities/>'' \<and>
   (\<exists>ls. get (capabilities_env (Some (capabilities_of [a4_template, label_template, a3_template])))
       = Inr ls \<and> map Some ls = [Some a4_layout]) \<and>
   (\<exists>ls. get (capabilities_env None) = Inr ls \<and> map Some ls = []) \<and>
   (\<exists>ls. get (capabilities_env (Some (Document [Element ''ServiceExceptionReport'' [] []])))
       = Inr ls \<and> map Some ls = [])"
proof -
  let ?doc = "capabilities_of [a4_template, label_template, a3_template]"
  let ?err = "Document [Element ''ServiceExceptionReport'' [] []]"
  have 1: "(case parseString (capabilities_env (Some ?doc)) ''<WMS_Capabilities/>'' of
          None \<Rightarrow> []
        | Some capabilities \<Rightarrow>
            (case composer_templates capabilities of
               Inl e \<Rightarrow> []
             | Inr templates \<Rightarrow>
                 map (template_descriptor (capabilities_env (Some ?doc)))
                   (takeWhile (\<lambda>t. template_descriptor (capabilities_env (Some ?doc)) t \<noteq> None)
                      (getElementsByTagName templates ''ComposerTemplate'')))) = [Some a4_layout]"
    by code_simp
  have 2: "(case parseString (capabilities_env None) ''<WMS_Capabilities/>'' of
          None \<Rightarrow> []
        | Some capabilities \<Rightarrow>
            (case composer_templates capabilities of
               Inl e \<Rightarrow> []
             | Inr templates \<Rightarrow>
                 map (template_descriptor (capabilities_env None))
                   (takeWhile (\<lambda>t. template_descriptor (capabilities_env None) t \<noteq> None)
                      (getElementsByTagName templates ''ComposerTemplate'')))) = []"
    by code_simp
  have 3: "(case parseString (capabilities_env (Some ?err)) ''<WMS_Capabilities/>'' of
          None \<Rightarrow> []
        | Some capabilities \<Rightarrow>
            (case composer_templates capabilities of
               Inl e \<Rightarrow> []
             | Inr templates \<Rightarrow>
                 map (template_descriptor (capabilities_env (Some ?err)))
                   (takeWhile (\<lambda>t. template_descriptor (capabilities_env (Some ?err)) t \<noteq> None)
                      (getElementsByTagName templates ''ComposerTemplate'')))) = []"
    by code_simp
  show ?thesis
    using get_lenient_parse [OF fetch_capabilities_env [of "Some ?doc"]]
      get_lenient_parse [OF fetch_capabilities_env [of None]]
      get_lenient_parse [OF fetch_capabilities_env [of "Some ?err"]]
      fetch_capabilities_env [of "Some ?doc"]
    unfolding 1 2 3 by blast
qed

text \<open>
  Claim C4. The handler fails exactly when the request for the capabilities fails, and
  then with that very exception: line 57 stands outside the \<open>try\<close> statement. Every other
  failure is swallowed.
\<close>

theorem get_propagates_transport_error:
  "(get env = Inl e) =
     (\<exists>msg. requests_get env (project_url env) capabilities_request = Inl msg \<and>
        e = RequestException msg)"
proof (cases "requests_get env (project_url env) capabilities_request")
  case (Inl msg)
  then show ?thesis using get_Inl [OF Inl] by auto
next
  case (Inr response)
  then show ?thesis using get_Inr [OF Inr] by auto
qed

theorem get_propagates_transport_error_witness:
  "get unreachable_env = Inl (RequestException ''Connection refused'') \<and>
   requests_get unreachable_env (project_url unreachable_env) capabilities_request
     = Inl ''Connection refused''"
proof -
  have f: "requests_get unreachable_env (project_url unreachable_env) capabilities_request
     = Inl ''Connection refused''"
    by (simp add: unreachable_env_def)
  then have "\<exists>msg. requests_get unreachable_env (project_url unreachable_env) capabilities_request
     = Inl msg \<and> RequestException ''Connection refused'' = RequestException msg"
    by simp
  then have "get unreachable_env = Inl (RequestException ''Connection refused'')"
    by (simp only: get_propagates_transport_error)
  with f show ?thesis by simp
qed




section \<open>The print handler: database and extent\<close>

lemma set_dict_set: "set (dict_set k v d) \<subseteq> insert (k, v) (set d)"
  by (induction k v d rule: dict_set.induct) auto

lemma set_dict_update: "set (dict_update d e) \<subseteq> set d \<union> set e"
  unfolding dict_update_def
proof (induction e arbitrary: d)
  case Nil
  then show ?case by simp
next
  case (Cons kv e)
  show ?case
    using Cons [of "dict_set (fst kv) (snd kv) d"] set_dict_set [of "fst kv" "snd kv" d]
    by auto
qed

lemma set_upper_keys_aux:
  "snd ` set (foldl (\<lambda>acc kv. dict_set (up (fst kv)) (snd kv) acc) acc d)
     \<subseteq> snd ` set acc \<union> snd ` set d"
proof (induction d arbitrary: acc)
  case Nil
  then show ?case by simp
next
  case (Cons kv d)
  have "snd ` set (dict_set (up (fst kv)) (snd kv) acc) \<subseteq> insert (snd kv) (snd ` set acc)"
    using set_dict_set [of "up (fst kv)" "snd kv" acc] by auto
  moreover have "snd ` set (foldl (\<lambda>acc kv. dict_set (up (fst kv)) (snd kv) acc)
        (dict_set (up (fst kv)) (snd kv) acc) d)
      \<subseteq> snd ` set (dict_set (up (fst kv)) (snd kv) acc) \<union> snd ` set d"
    by (rule Cons)
  ultimately have "snd ` set (foldl (\<lambda>acc kv. dict_set (up (fst kv)) (snd kv) acc)
        (dict_set (up (fst kv)) (snd kv) acc) d)
      \<subseteq> snd ` set acc \<union> insert (snd kv) (snd ` set d)"
    by blast
  then show ?case by simp
qed

lemma values_upper_keys: "snd ` set (upper_keys up d) \<subseteq> snd ` set d"
  using set_upper_keys_aux [of up "[]" d] by (simp add: upper_keys_def)

lemma keys_dict_update: "fst ` set (dict_update d e) = fst ` set d \<union> fst ` set e"
  unfolding dict_update_def
  by (induction e arbitrary: d) (auto simp: keys_dict_set)

lemma set_dict_of: "set (dict_of e) \<subseteq> set e"
  using set_dict_update [of "[]" e] by (simp add: dict_of_def)

lemma values_upper_keys_update:
  "snd ` set (upper_keys up (dict_update d (dict_of e))) \<subseteq> snd ` set d \<union> snd ` set e"
proof -
  have a: "snd ` set (upper_keys up (dict_update d (dict_of e)))
      \<subseteq> snd ` set (dict_update d (dict_of e))"
    by (rule values_upper_keys)
  have b: "set (dict_update d (dict_of e)) \<subseteq> set d \<union> set (dict_of e)"
    by (rule set_dict_update)
  have c: "set d \<union> set (dict_of e) \<subseteq> set d \<union> set e"
    by (rule Un_mono [OF subset_refl set_dict_of])
  have "snd ` set (dict_update d (dict_of e)) \<subseteq> snd ` (set d \<union> set e)"
    by (rule image_mono [OF subset_trans [OF b c]])
  with a show ?thesis unfolding image_Un by (rule subset_trans)
qed

lemma merged_params_Str:
  assumes "dict_get (merged_params env pairs) k = Some v"
  shows "\<exists>s. v = Str s"
proof -
  have "(k, v) \<in> set (merged_params env pairs)"
    using assms unfolding dict_get_def by (rule map_of_SomeD)
  then have "snd (k, v) \<in> snd ` set (merged_params env pairs)"
    by (rule imageI)
  moreover have "snd ` set (merged_params env pairs)
      \<subseteq> snd ` set [(''SERVICE'', Str ''WMS''), (''VERSION'', Str ''1.3.0''),
                     (''REQUEST'', Str ''GetPrint''), (''FORMAT'', Str ''PDF'')]
       \<union> snd ` set (map (\<lambda>kv. (fst kv, Str (snd kv))) pairs)"
    unfolding merged_params_def Let_def by (rule values_upper_keys_update)
  ultimately have "snd (k, v) \<in> snd ` set [(''SERVICE'', Str ''WMS''), (''VERSION'', Str ''1.3.0''),
                     (''REQUEST'', Str ''GetPrint''), (''FORMAT'', Str ''PDF'')]
       \<union> snd ` set (map (\<lambda>kv. (fst kv, Str (snd kv))) pairs)"
    by (rule rev_subsetD)
  then have "v = Str ''WMS'' \<or> v = Str ''1.3.0'' \<or> v = Str ''GetPrint'' \<or> v = Str ''PDF''
      \<or> v \<in> (\<lambda>kv. Str (snd kv)) ` set pairs"
    by (simp add: image_image)
  then show ?thesis by (elim disjE imageE) simp_all
qed

lemma ascii_upper_FORMAT: "ascii_upper ''FORMAT'' = ''FORMAT''"
  by (simp add: ascii_upper_def ascii_upper_char_def)

lemma merged_params_FORMAT:
  fixes env :: "('f, 'd) env"
  assumes "str_upper env ''FORMAT'' = ''FORMAT''"
  shows "\<exists>f. dict_get (merged_params env pairs) ''FORMAT'' = Some (Str f)"
proof -
  have "''FORMAT'' \<in> fst ` set (merged_params env pairs)"
    unfolding merged_params_def Let_def keys_upper_keys keys_dict_update
    using assms by (intro image_eqI [of _ _ "''FORMAT''"]) simp_all
  then obtain v where v: "dict_get (merged_params env pairs) ''FORMAT'' = Some v"
    using dict_get_None_iff [of "merged_params env pairs" "''FORMAT''"] by auto
  with merged_params_Str [OF v] show ?thesis by auto
qed

lemma map_raise_Some:
  "map (float_of env) xs = map Some ys \<Longrightarrow> map_raise (py_float env) xs = Inr ys"
  by (induction xs arbitrary: ys) (auto simp: py_float_def)

lemma map_raise_None:
  "c \<in> set xs \<Longrightarrow> float_of env c = None \<Longrightarrow>
   \<exists>c' \<in> set xs. float_of env c' = None \<and> map_raise (py_float env) xs = Inl (ValueError c')"
  by (induction xs) (auto simp: py_float_def split: option.splits sum.splits)

lemma extent_center_Inr:
  assumes "dict_get p ''EXTENT'' = Some (Str s)"
    and "map (float_of env) (split CHR '','' s) = map Some (minx # miny # maxx # maxy # rest)"
  shows "extent_center env p =
     Inr (float_mul env (float_half env) (float_add env minx maxx),
          float_mul env (float_half env) (float_add env miny maxy))"
  using assms(1) map_raise_Some [OF assms(2)]
  by (simp add: extent_center_def dict_str_def dict_item_def item_def)

lemma build_trace:
  fixes env :: "('f, 'd) env"
  assumes E: "dict_get (merged_params env pairs :: 'd params) ''EXTENT'' = Some (Str s)"
    and F: "map (float_of env) (split CHR '','' s) = map Some (minx # miny # maxx # maxy # rest)"
  shows "fst (build env pairs) =
     (let sql = \<lparr>q_table = getenv env ''LANDREG_PRINTINFO_TABLE'' ''agi_nfgeometer_pub.print_info'',
                  q_x = float_mul env (float_half env) (float_add env minx maxx),
                  q_y = float_mul env (float_half env) (float_add env miny maxy),
                  q_srid = 2056\<rparr> in
      case db_connect env of
        Some msg \<Rightarrow> []
      | None \<Rightarrow>
          (case db_execute env sql of
             Inl msg \<Rightarrow> [DbConnect, DbExecute sql]
           | Inr sql_result \<Rightarrow> [DbConnect, DbExecute sql, DbClose]))"
proof -
  obtain p where p: "set_layers env (merged_params env pairs) = Inr p"
    using set_layers_eq [of env "merged_params env pairs"] by simp
  have "dict_get p ''EXTENT'' = Some (Str s)"
    using set_layers_get [OF p, of "''EXTENT''"] E by simp
  then have c: "extent_center env p =
     Inr (float_mul env (float_half env) (float_add env minx maxx),
          float_mul env (float_half env) (float_add env miny maxy))"
    using F by (rule extent_center_Inr)
  show ?thesis
    by (simp add: build_def p c print_info_def Let_def split: option.splits sum.splits)
qed

text \<open>
  Claim C7. When \<open>EXTENT\<close> parses as minx, miny, maxx, maxy (further numbers may follow), the
  database sees, once the connection is made, exactly one query: for the configured table
  at x = 0.5 * (minx + maxx), y = 0.5 * (miny + maxy) with SRID 2056. The equation gives
  the whole trace of the database, for each outcome of the connection and of the query.
\<close>

theorem lookup_at_extent_center:
  fixes env :: "('f, 'd) env"
  assumes "dict_get (merged_params env pairs :: 'd params) ''EXTENT'' = Some (Str s)"
    and "map (float_of env) (split CHR '','' s) = map Some (minx # miny # maxx # maxy # rest)"
  shows "fst (build env pairs) =
     (let sql = \<lparr>q_table = getenv env ''LANDREG_PRINTINFO_TABLE'' ''agi_nfgeometer_pub.print_info'',
                  q_x = float_mul env (float_half env) (float_add env minx maxx),
                  q_y = float_mul env (float_half env) (float_add env miny maxy),
                  q_srid = 2056\<rparr> in
      case db_connect env of
        Some msg \<Rightarrow> []
      | None \<Rightarrow>
          (case db_execute env sql of
             Inl msg \<Rightarrow> [DbConnect, DbExecute sql]
           | Inr sql_result \<Rightarrow> [DbConnect, DbExecute sql, DbClose]))"
  using assms by (rule build_trace)

text \<open>
  For \<open>EXTENT\<close> 10,20,30,40 the query is made at (20, 30).
\<close>

theorem lookup_at_extent_center_witness:
  "dict_get (merged_params example_env extent_pairs :: string params) ''EXTENT'' = Some (Str ''10,20,30,40'') \<and>
   map (float_of example_env) (split CHR '','' ''10,20,30,40'')
     = map Some [10, 20, 30, 40] \<and>
   fst (build example_env extent_pairs) =
     [DbConnect,
      DbExecute \<lparr>q_table = ''agi_nfgeometer_pub.print_info'', q_x = 20, q_y = 30, q_srid = 2056\<rparr>,
      DbClose]"
proof -
  have 1: "dict_get (merged_params example_env extent_pairs :: string params) ''EXTENT''
      = Some (Str ''10,20,30,40'')"
    by code_simp
  have 2: "map (float_of example_env) (split CHR '','' ''10,20,30,40'')
      = map Some (10 # 20 # 30 # 40 # [])"
    by code_simp
  have 3: "(let sql = \<lparr>q_table = getenv example_env ''LANDREG_PRINTINFO_TABLE''
                           ''agi_nfgeometer_pub.print_info'',
                  q_x = float_mul example_env (float_half example_env)
                          (float_add example_env 10 30),
                  q_y = float_mul example_env (float_half example_env)
                          (float_add example_env 20 40),
                  q_srid = 2056\<rparr> in
      case db_connect example_env of
        Some msg \<Rightarrow> []
      | None \<Rightarrow>
          (case db_execute example_env sql of
             Inl msg \<Rightarrow> [DbConnect, DbExecute sql]
           | Inr sql_result \<Rightarrow> [DbConnect, DbExecute sql, DbClose])) =
     ([DbConnect,
      DbExecute \<lparr>q_table = ''agi_nfgeometer_pub.print_info'', q_x = 20, q_y = 30, q_srid = 2056\<rparr>,
      DbClose] :: (rat, string) event list)"
    by code_simp
  have "fst (build example_env extent_pairs) =
     [DbConnect,
      DbExecute \<lparr>q_table = ''agi_nfgeometer_pub.print_info'', q_x = 20, q_y = 30, q_srid = 2056\<rparr>,
      DbClose]"
    using lookup_at_extent_center [OF 1 2] unfolding 3 .
  with 1 2 show ?thesis by simp
qed

text \<open>
  Claim C3 does not hold of the code. When the query of line 141 raises, the handler
  ends with that exception and the trace ends with the query: \<open>conn.close()\<close> on line 150
  is not reached, and nothing else closes the connection.
\<close>

theorem query_failure_leaves_connection_open:
  "post failing_query_env extent_pairs =
     ([DbConnect,
       DbExecute \<lparr>q_table = ''agi_nfgeometer_pub.print_info'', q_x = 20, q_y = 30, q_srid = 2056\<rparr>],
      Inl (DatabaseError ''relation print_info does not exist''))"
  by code_simp

section \<open>The print handler: the response\<close>

lemma build_FORMAT:
  fixes env :: "('f, 'd) env"
  assumes "snd (build env pairs) = Inr r"
    and "str_upper env ''FORMAT'' = ''FORMAT''"
  shows "\<exists>f. dict_get r ''FORMAT'' = Some (Str f)"
proof -
  have "dict_get r ''FORMAT'' = dict_get (merged_params env pairs) ''FORMAT''"
    using build_get_merged [OF assms(1), of "''FORMAT''"]
    by (simp add: enrichment_keys_def map_keys_def)
  then show ?thesis
    using merged_params_FORMAT [OF assms(2), of pairs] by simp
qed

lemma forward_response:
  assumes "requests_post env (project_url env) 120 params = Inr req"
    and "dict_get params ''FORMAT'' = Some (Str f)"
  shows "snd (forward env params) =
     (case up_content_type req of
        None \<Rightarrow> Inl (KeyError ''content-type'')
      | Some ct \<Rightarrow>
          Inr \<lparr>status = up_status_code req, content_type = ct,
               content_disposition =
                 (if ct = ''application/pdf''
                  then Some (''attachment; filename='' @ getenv env ''LANDREG_PROJECT'' ''grundbuch''
                               @ ''.'' @ str_lower env f)
                  else None),
               body = up_content req\<rparr>)"
  using assms by (simp add: forward_def Let_def dict_str_def dict_item_def split: option.splits)

lemma post_snd:
  "snd (build env pairs) = Inr params \<Longrightarrow> snd (post env pairs) = snd (forward env params)"
  by (cases "build env pairs") (simp add: post_def split: prod.splits)

text \<open>
  Claim C9, as the code has it. When \<open>build\<close> succeeds and the QGIS server answers, the
  request has a \<open>FORMAT\<close> (upper-casing leaves the key \<open>FORMAT\<close> of the defaults as it is), and
  the handler does one of two things. If the answer has no content-type header, line 176
  raises KeyError and nothing is forwarded. Otherwise the handler answers with the status
  code, the content type and the chunks of the server's answer, and the
  content-disposition header is set exactly when the content type is the string
  \<open>application/pdf\<close>: to \<open>attachment; filename=\<close>, the project, a dot and the lower-cased
  \<open>FORMAT\<close> of the request.
\<close>

theorem post_forwards_response:
  assumes "snd (build env pairs) = Inr params"
    and "requests_post env (project_url env) 120 params = Inr req"
    and "str_upper env ''FORMAT'' = ''FORMAT''"
  shows "\<exists>f. dict_get params ''FORMAT'' = Some (Str f) \<and>
     snd (post env pairs) =
       (case up_content_type req of
          None \<Rightarrow> Inl (KeyError ''content-type'')
        | Some ct \<Rightarrow>
            Inr \<lparr>status = up_status_code req, content_type = ct,
                 content_disposition =
                   (if ct = ''application/pdf''
                    then Some (''attachment; filename='' @ getenv env ''LANDREG_PROJECT'' ''grundbuch''
                                 @ ''.'' @ str_lower env f)
                    else None),
                 body = up_content req\<rparr>)"
proof -
  from build_FORMAT [OF assms(1,3)] obtain f where f: "dict_get params ''FORMAT'' = Some (Str f)"
    by (rule exE)
  have "snd (post env pairs) = snd (forward env params)"
    using assms(1) by (rule post_snd)
  also note forward_response [OF assms(2) f]
  finally show ?thesis using f by (intro exI [of _ f] conjI)
qed

text \<open>
  The claim as stated fails: the server answers with status 200 and no content-type
  header, and the handler raises KeyError instead of handing the status on.
\<close>

theorem post_without_content_type_counterexample:
  "requests_post no_content_type_env (project_url no_content_type_env) 120 end_to_end_request =
     Inr \<lparr>up_status_code = 200, up_content_type = None, up_content = [''%PDF'']\<rparr> \<and>
   snd (build no_content_type_env end_to_end_pairs) = Inr end_to_end_request \<and>
   snd (post no_content_type_env end_to_end_pairs) = Inl (KeyError ''content-type'')"
  by code_simp

lemma build_end_to_end: "snd (build example_env end_to_end_pairs) = Inr end_to_end_request"
  by code_simp

lemma build_end_to_end_server_error:
  "snd (build server_error_env end_to_end_pairs) = Inr end_to_end_request"
  by code_simp

text \<open>
  The end-to-end example of the specification, and an answer that is no PDF.
\<close>

theorem post_forwards_response_witness:
  "snd (post example_env end_to_end_pairs) =
     Inr \<lparr>status = 200, content_type = ''application/pdf'',
          content_disposition = Some ''attachment; filename=grundbuch.pdf'',
          body = [''%PDF'']\<rparr> \<and>
   snd (post server_error_env end_to_end_pairs) =
     Inr \<lparr>status = 500, content_type = ''text/xml; charset=utf-8'',
          content_disposition = None,
          body = [''<ServiceExceptionReport/>'']\<rparr> \<and>
   str_upper example_env ''FORMAT'' = ''FORMAT''"
proof -
  let ?pdf = "\<lparr>up_status_code = 200, up_content_type = Some ''application/pdf'',
               up_content = [''%PDF'']\<rparr>"
  let ?err = "\<lparr>up_status_code = 500, up_content_type = Some ''text/xml; charset=utf-8'',
               up_content = [''<ServiceExceptionReport/>'']\<rparr>"
  have f: "dict_get end_to_end_request ''FORMAT'' = Some (Str ''PDF'')" by code_simp
  have n: "''attachment; filename='' @ getenv example_env ''LANDREG_PROJECT'' ''grundbuch''
      @ ''.'' @ str_lower example_env ''PDF'' = ''attachment; filename=grundbuch.pdf''"
    by code_simp
  have 1: "requests_post example_env (project_url example_env) 120 end_to_end_request = Inr ?pdf"
    by (simp add: example_env_def)
  have 2: "requests_post server_error_env (project_url server_error_env) 120 end_to_end_request
      = Inr ?err"
    by (simp add: server_error_env_def)
  have u: "str_upper example_env ''FORMAT'' = ''FORMAT''"
    by (simp add: example_env_def ascii_upper_FORMAT)
  have u': "str_upper server_error_env ''FORMAT'' = ''FORMAT''"
    by (simp add: server_error_env_def example_env_def ascii_upper_FORMAT)
  have a: "snd (post example_env end_to_end_pairs) =
     Inr \<lparr>status = 200, content_type = ''application/pdf'',
          content_disposition = Some ''attachment; filename=grundbuch.pdf'',
          body = [''%PDF'']\<rparr>"
    using post_forwards_response [OF build_end_to_end 1 u] f n
    by simp
  have b: "snd (post server_error_env end_to_end_pairs) =
     Inr \<lparr>status = 500, content_type = ''text/xml; charset=utf-8'',
          content_disposition = None,
          body = [''<ServiceExceptionReport/>'']\<rparr>"
    using post_forwards_response [OF build_end_to_end_server_error 2 u'] f
    by simp
  from a b u show ?thesis by (intro conjI)
qed

section \<open>The print handler: how build ends\<close>

lemma build_snd_eq:
  assumes "set_layers env (merged_params env pairs) = Inr p"
  shows "snd (build env pairs) =
     (case extent_center env p of
        Inl e \<Rightarrow> Inl e
      | Inr xy \<Rightarrow>
          (case snd (print_info env (fst xy) (snd xy) p) of
             Inl e \<Rightarrow> Inl e
           | Inr p1 \<Rightarrow> prefix_params p1))"
  using assms by (simp add: build_def split: sum.splits prod.splits)

lemma extent_center_missing:
  "dict_get p ''EXTENT'' = None \<Longrightarrow> extent_center env p = Inl (KeyError ''EXTENT'')"
  by (simp add: extent_center_def dict_str_def dict_item_def)

lemma extent_center_malformed:
  assumes "dict_get p ''EXTENT'' = Some (Str s)"
    and "c \<in> set (split CHR '','' s)" and "float_of env c = None"
  shows "\<exists>c' \<in> set (split CHR '','' s). float_of env c' = None \<and>
     extent_center env p = Inl (ValueError c')"
proof -
  from map_raise_None [OF assms(2,3)] obtain c' where
    c': "c' \<in> set (split CHR '','' s)" "float_of env c' = None"
      "map_raise (py_float env) (split CHR '','' s) = Inl (ValueError c')"
    by (elim bexE conjE)
  have "extent_center env p = Inl (ValueError c')"
    using assms(1) c'(3) by (simp add: extent_center_def dict_str_def dict_item_def)
  with c'(1,2) show ?thesis by (intro bexI [of _ c'] conjI)
qed

lemma extent_center_short:
  assumes "dict_get p ''EXTENT'' = Some (Str s)"
    and "map (float_of env) (split CHR '','' s) = map Some extent"
    and "length extent < 4"
  shows "extent_center env p = Inl IndexError"
  using assms(1,3) map_raise_Some [OF assms(2)]
  by (simp add: extent_center_def dict_str_def dict_item_def item_def)

lemma extent_center_ok:
  assumes "dict_get p ''EXTENT'' = Some (Str s)"
    and "map (float_of env) (split CHR '','' s) = map Some extent"
    and "4 \<le> length extent"
  shows "extent_center env p =
     Inr (float_mul env (float_half env) (float_add env (extent ! 0) (extent ! 2)),
          float_mul env (float_half env) (float_add env (extent ! 1) (extent ! 3)))"
proof -
  have "extent \<noteq> []"
    using assms(3) by auto
  then show ?thesis
    using assms(1,3) map_raise_Some [OF assms(2)]
    by (simp add: extent_center_def dict_str_def dict_item_def item_def)
qed

lemma print_info_connect_fails:
  "db_connect env = Some msg \<Longrightarrow> snd (print_info env x y p) = Inl (DatabaseError msg)"
  by (simp add: print_info_def Let_def)

lemma print_info_query_fails:
  "db_connect env = None \<Longrightarrow>
   db_execute env \<lparr>q_table = getenv env ''LANDREG_PRINTINFO_TABLE'' ''agi_nfgeometer_pub.print_info'',
                    q_x = x, q_y = y, q_srid = 2056\<rparr> = Inl msg \<Longrightarrow>
   snd (print_info env x y p) = Inl (DatabaseError msg)"
  by (simp add: print_info_def Let_def)

lemma print_info_ok:
  "db_connect env = None \<Longrightarrow>
   db_execute env \<lparr>q_table = getenv env ''LANDREG_PRINTINFO_TABLE'' ''agi_nfgeometer_pub.print_info'',
                    q_x = x, q_y = y, q_srid = 2056\<rparr> = Inr row \<Longrightarrow>
   \<exists>p1. snd (print_info env x y p) = Inr p1"
  by (simp add: print_info_def Let_def)

lemma prefix_params_outcome:
  "prefix_params p =
     (if dict_get p ''EXTENT'' = None then Inl (KeyError ''EXTENT'')
      else if dict_get p ''SCALE'' = None then Inl (KeyError ''SCALE'')
      else if dict_get p ''ROTATION'' = None then Inl (KeyError ''ROTATION'')
      else prefix_params p)"
  "dict_get p ''EXTENT'' \<noteq> None \<Longrightarrow> dict_get p ''SCALE'' \<noteq> None \<Longrightarrow>
   dict_get p ''ROTATION'' \<noteq> None \<Longrightarrow> \<exists>r. prefix_params p = Inr r"
  by (auto simp: prefix_params_def prefix_param_def dict_item_def dict_get_set dict_get_del
      split: option.splits)

lemma prefix_params_no_scale:
  "dict_get p ''EXTENT'' \<noteq> None \<Longrightarrow> dict_get p ''SCALE'' = None \<Longrightarrow>
   prefix_params p = Inl (KeyError ''SCALE'')"
  by (auto simp: prefix_params_def prefix_param_def dict_item_def dict_get_set dict_get_del
      split: option.splits)

lemma prefix_params_no_rotation:
  "dict_get p ''EXTENT'' \<noteq> None \<Longrightarrow> dict_get p ''SCALE'' \<noteq> None \<Longrightarrow>
   dict_get p ''ROTATION'' = None \<Longrightarrow> prefix_params p = Inl (KeyError ''ROTATION'')"
  by (auto simp: prefix_params_def prefix_param_def dict_item_def dict_get_set dict_get_del
      split: option.splits)

lemma build_via_layers:
  obtains p where "set_layers env (merged_params env pairs) = Inr p"
    and "dict_get p ''EXTENT'' = dict_get (merged_params env pairs) ''EXTENT''"
    and "dict_get p ''SCALE'' = dict_get (merged_params env pairs) ''SCALE''"
    and "dict_get p ''ROTATION'' = dict_get (merged_params env pairs) ''ROTATION''"
proof -
  obtain p where p: "set_layers env (merged_params env pairs) = Inr p"
    using set_layers_eq [of env "merged_params env pairs"] by simp
  show thesis
    using that [OF p] set_layers_get [OF p, of "''EXTENT''"] set_layers_get [OF p, of "''SCALE''"]
      set_layers_get [OF p, of "''ROTATION''"]
    by simp
qed

lemma build_missing_extent:
  fixes env :: "('f, 'd) env"
  assumes "dict_get (merged_params env pairs :: 'd params) ''EXTENT'' = None"
  shows "snd (build env pairs) = Inl (KeyError ''EXTENT'')"
proof -
  obtain p :: "'d params" where p: "set_layers env (merged_params env pairs) = Inr p"
    and e: "dict_get p ''EXTENT'' = dict_get (merged_params env pairs) ''EXTENT''"
    by (rule build_via_layers)
  show ?thesis
    using extent_center_missing [of p env] e assms by (simp add: build_snd_eq [OF p])
qed

lemma build_malformed_extent:
  fixes env :: "('f, 'd) env"
  assumes "dict_get (merged_params env pairs :: 'd params) ''EXTENT'' = Some (Str s)"
    and "c \<in> set (split CHR '','' s)" and "float_of env c = None"
  shows "\<exists>c' \<in> set (split CHR '','' s). float_of env c' = None \<and>
     snd (build env pairs) = Inl (ValueError c')"
proof -
  obtain p :: "'d params" where p: "set_layers env (merged_params env pairs) = Inr p"
    and e: "dict_get p ''EXTENT'' = dict_get (merged_params env pairs) ''EXTENT''"
    by (rule build_via_layers)
  have "dict_get p ''EXTENT'' = Some (Str s)" using e assms(1) by simp
  from extent_center_malformed [OF this assms(2,3)] obtain c' where
    c': "c' \<in> set (split CHR '','' s)" "float_of env c' = None"
      "extent_center env p = Inl (ValueError c')"
    by (elim bexE conjE)
  have "snd (build env pairs) = Inl (ValueError c')"
    using c'(3) by (simp add: build_snd_eq [OF p])
  with c'(1,2) show ?thesis by (intro bexI [of _ c'] conjI)
qed

lemma build_short_extent:
  fixes env :: "('f, 'd) env"
  assumes "dict_get (merged_params env pairs :: 'd params) ''EXTENT'' = Some (Str s)"
    and "map (float_of env) (split CHR '','' s) = map Some extent"
    and "length extent < 4"
  shows "snd (build env pairs) = Inl IndexError"
proof -
  obtain p :: "'d params" where p: "set_layers env (merged_params env pairs) = Inr p"
    and e: "dict_get p ''EXTENT'' = dict_get (merged_params env pairs) ''EXTENT''"
    by (rule build_via_layers)
  have "dict_get p ''EXTENT'' = Some (Str s)" using e assms(1) by simp
  from extent_center_short [OF this assms(2,3)] show ?thesis
    by (simp add: build_snd_eq [OF p])
qed

lemma build_after_extent:
  fixes env :: "('f, 'd) env"
  assumes "dict_get (merged_params env pairs :: 'd params) ''EXTENT'' = Some (Str s)"
    and "map (float_of env) (split CHR '','' s) = map Some extent"
    and "4 \<le> length extent"
  obtains p :: "'d params" where
    "snd (build env pairs) =
       (case snd (print_info env (q_x (centre_query env extent)) (q_y (centre_query env extent)) p) of
          Inl e \<Rightarrow> Inl e
        | Inr p1 \<Rightarrow> prefix_params p1)"
    and "dict_get p ''EXTENT'' = dict_get (merged_params env pairs) ''EXTENT''"
    and "dict_get p ''SCALE'' = dict_get (merged_params env pairs) ''SCALE''"
    and "dict_get p ''ROTATION'' = dict_get (merged_params env pairs) ''ROTATION''"
proof -
  obtain p :: "'d params" where p: "set_layers env (merged_params env pairs) = Inr p"
    and e: "dict_get p ''EXTENT'' = dict_get (merged_params env pairs) ''EXTENT''"
    and s: "dict_get p ''SCALE'' = dict_get (merged_params env pairs) ''SCALE''"
    and r: "dict_get p ''ROTATION'' = dict_get (merged_params env pairs) ''ROTATION''"
    by (rule build_via_layers)
  have "dict_get p ''EXTENT'' = Some (Str s)" using e assms(1) by simp
  from extent_center_ok [OF this assms(2,3)]
  have "snd (build env pairs) =
       (case snd (print_info env (q_x (centre_query env extent)) (q_y (centre_query env extent)) p) of
          Inl e \<Rightarrow> Inl e
        | Inr p1 \<Rightarrow> prefix_params p1)"
    by (simp add: build_snd_eq [OF p] centre_query_def)
  then show thesis using e s r by (rule that)
qed

lemma centre_query_eq:
  "centre_query env extent =
     \<lparr>q_table = getenv env ''LANDREG_PRINTINFO_TABLE'' ''agi_nfgeometer_pub.print_info'',
      q_x = q_x (centre_query env extent), q_y = q_y (centre_query env extent), q_srid = 2056\<rparr>"
  by (simp add: centre_query_def)

lemma build_connect_fails:
  fixes env :: "('f, 'd) env"
  assumes "dict_get (merged_params env pairs :: 'd params) ''EXTENT'' = Some (Str s)"
    and "map (float_of env) (split CHR '','' s) = map Some extent"
    and "4 \<le> length extent"
    and "db_connect env = Some msg"
  shows "snd (build env pairs) = Inl (DatabaseError msg)"
proof -
  from build_after_extent [OF assms(1,2,3)] obtain p :: "'d params" where
    b: "snd (build env pairs) =
       (case snd (print_info env (q_x (centre_query env extent)) (q_y (centre_query env extent)) p) of
          Inl e \<Rightarrow> Inl e
        | Inr p1 \<Rightarrow> prefix_params p1)"
    by this
  show ?thesis
    unfolding b by (simp add: print_info_connect_fails [OF assms(4)])
qed

lemma build_query_fails:
  fixes env :: "('f, 'd) env"
  assumes "dict_get (merged_params env pairs :: 'd params) ''EXTENT'' = Some (Str s)"
    and "map (float_of env) (split CHR '','' s) = map Some extent"
    and "4 \<le> length extent"
    and "db_connect env = None"
    and "db_execute env (centre_query env extent) = Inl msg"
  shows "snd (build env pairs) = Inl (DatabaseError msg)"
proof -
  from build_after_extent [OF assms(1,2,3)] obtain p :: "'d params" where
    b: "snd (build env pairs) =
       (case snd (print_info env (q_x (centre_query env extent)) (q_y (centre_query env extent)) p) of
          Inl e \<Rightarrow> Inl e
        | Inr p1 \<Rightarrow> prefix_params p1)"
    by this
  have q: "db_execute env
      \<lparr>q_table = getenv env ''LANDREG_PRINTINFO_TABLE'' ''agi_nfgeometer_pub.print_info'',
       q_x = q_x (centre_query env extent), q_y = q_y (centre_query env extent),
       q_srid = 2056\<rparr> = Inl msg"
    using assms(5) centre_query_eq [of env extent] by simp
  show ?thesis
    unfolding b by (simp add: print_info_query_fails [OF assms(4) q])
qed

lemma build_after_query:
  fixes env :: "('f, 'd) env"
  assumes "dict_get (merged_params env pairs :: 'd params) ''EXTENT'' = Some (Str s)"
    and "map (float_of env) (split CHR '','' s) = map Some extent"
    and "4 \<le> length extent"
    and "db_connect env = None"
    and "db_execute env (centre_query env extent) = Inr row"
  obtains p1 :: "'d params" where
    "snd (build env pairs) = prefix_params p1"
    and "dict_get p1 ''EXTENT'' \<noteq> None"
    and "dict_get p1 ''SCALE'' = dict_get (merged_params env pairs) ''SCALE''"
    and "dict_get p1 ''ROTATION'' = dict_get (merged_params env pairs) ''ROTATION''"
proof -
  from build_after_extent [OF assms(1,2,3)] obtain p :: "'d params" where
    b: "snd (build env pairs) =
       (case snd (print_info env (q_x (centre_query env extent)) (q_y (centre_query env extent)) p) of
          Inl e \<Rightarrow> Inl e
        | Inr p1 \<Rightarrow> prefix_params p1)"
    and e: "dict_get p ''EXTENT'' = dict_get (merged_params env pairs) ''EXTENT''"
    and s: "dict_get p ''SCALE'' = dict_get (merged_params env pairs) ''SCALE''"
    and r: "dict_get p ''ROTATION'' = dict_get (merged_params env pairs) ''ROTATION''"
    by this
  have q: "db_execute env
      \<lparr>q_table = getenv env ''LANDREG_PRINTINFO_TABLE'' ''agi_nfgeometer_pub.print_info'',
       q_x = q_x (centre_query env extent), q_y = q_y (centre_query env extent),
       q_srid = 2056\<rparr> = Inr row"
    using assms(5) centre_query_eq [of env extent] by simp
  from print_info_ok [OF assms(4) q] obtain p1 where
    p1: "snd (print_info env (q_x (centre_query env extent)) (q_y (centre_query env extent)) p)
      = Inr p1"
    by (rule exE)
  have 1: "snd (build env pairs) = prefix_params p1"
    unfolding b by (simp add: p1)
  have 2: "dict_get p1 ''EXTENT'' \<noteq> None"
    using print_info_get [OF p1, of "''EXTENT''"] e assms(1) by (simp add: enrichment_keys_def)
  have 3: "dict_get p1 ''SCALE'' = dict_get (merged_params env pairs) ''SCALE''"
    using print_info_get [OF p1, of "''SCALE''"] s by (simp add: enrichment_keys_def)
  have 4: "dict_get p1 ''ROTATION'' = dict_get (merged_params env pairs) ''ROTATION''"
    using print_info_get [OF p1, of "''ROTATION''"] r by (simp add: enrichment_keys_def)
  from 1 2 3 4 show thesis by (rule that)
qed

text \<open>
  Claim C1, as the code has it. With m the merged, upper-cased parameters, \<open>build\<close> ends in
  this order: with KeyError when m has no \<open>EXTENT\<close> (whose value is always a string); with
  ValueError when some comma-separated part of \<open>EXTENT\<close> is no float; with IndexError when
  all parts are floats and there are fewer than four; with the exception of the database
  when the connection or the query fails; with KeyError when \<open>SCALE\<close> is absent, or
  \<open>SCALE\<close> is present and \<open>ROTATION\<close> absent; and it succeeds in every other case. Four
  floats or more are accepted: the code reads the first four and ignores the rest.
\<close>

theorem build_outcome:
  fixes env :: "('f, 'd) env"
  shows
    "(dict_get (merged_params env pairs :: 'd params) ''EXTENT'' = None \<longrightarrow>
        snd (build env pairs) = Inl (KeyError ''EXTENT'')) \<and>
     (\<forall>v. dict_get (merged_params env pairs :: 'd params) ''EXTENT'' = Some v \<longrightarrow> (\<exists>s. v = Str s)) \<and>
     (\<forall>s c. dict_get (merged_params env pairs :: 'd params) ''EXTENT'' = Some (Str s) \<longrightarrow>
        c \<in> set (split CHR '','' s) \<longrightarrow> float_of env c = None \<longrightarrow>
        (\<exists>c' \<in> set (split CHR '','' s). float_of env c' = None \<and>
           snd (build env pairs) = Inl (ValueError c'))) \<and>
     (\<forall>s extent. dict_get (merged_params env pairs :: 'd params) ''EXTENT'' = Some (Str s) \<longrightarrow>
        map (float_of env) (split CHR '','' s) = map Some extent \<longrightarrow>
        (length extent < 4 \<longrightarrow> snd (build env pairs) = Inl IndexError) \<and>
        (4 \<le> length extent \<longrightarrow>
           (\<forall>msg. db_connect env = Some msg \<longrightarrow>
              snd (build env pairs) = Inl (DatabaseError msg)) \<and>
           (\<forall>msg. db_connect env = None \<longrightarrow>
              db_execute env (centre_query env extent) = Inl msg \<longrightarrow>
              snd (build env pairs) = Inl (DatabaseError msg)) \<and>
           (\<forall>row. db_connect env = None \<longrightarrow>
              db_execute env (centre_query env extent) = Inr row \<longrightarrow>
              (dict_get (merged_params env pairs :: 'd params) ''SCALE'' = None \<longrightarrow>
                 snd (build env pairs) = Inl (KeyError ''SCALE'')) \<and>
              (dict_get (merged_params env pairs :: 'd params) ''SCALE'' \<noteq> None \<longrightarrow>
               dict_get (merged_params env pairs :: 'd params) ''ROTATION'' = None \<longrightarrow>
                 snd (build env pairs) = Inl (KeyError ''ROTATION'')) \<and>
              (dict_get (merged_params env pairs :: 'd params) ''SCALE'' \<noteq> None \<longrightarrow>
               dict_get (merged_params env pairs :: 'd params) ''ROTATION'' \<noteq> None \<longrightarrow>
                 (\<exists>r. snd (build env pairs) = Inr r)))))"
proof (intro conjI allI impI)
  assume "dict_get (merged_params env pairs :: 'd params) ''EXTENT'' = None"
  then show "snd (build env pairs) = Inl (KeyError ''EXTENT'')"
    by (rule build_missing_extent)
next
  fix v :: "'d pval"
  assume "dict_get (merged_params env pairs) ''EXTENT'' = Some v"
  then show "\<exists>s. v = Str s" by (rule merged_params_Str)
next
  fix s c
  assume "dict_get (merged_params env pairs :: 'd params) ''EXTENT'' = Some (Str s)"
    and "c \<in> set (split CHR '','' s)" and "float_of env c = None"
  then show "\<exists>c' \<in> set (split CHR '','' s). float_of env c' = None \<and>
      snd (build env pairs) = Inl (ValueError c')"
    by (rule build_malformed_extent)
next
  fix s extent
  assume "dict_get (merged_params env pairs :: 'd params) ''EXTENT'' = Some (Str s)"
    and "map (float_of env) (split CHR '','' s) = map Some extent"
    and "length extent < 4"
  then show "snd (build env pairs) = Inl IndexError"
    by (rule build_short_extent)
next
  fix s extent msg
  assume "dict_get (merged_params env pairs :: 'd params) ''EXTENT'' = Some (Str s)"
    and "map (float_of env) (split CHR '','' s) = map Some extent"
    and "4 \<le> length extent" and "db_connect env = Some msg"
  then show "snd (build env pairs) = Inl (DatabaseError msg)"
    by (rule build_connect_fails)
next
  fix s extent msg
  assume "dict_get (merged_params env pairs :: 'd params) ''EXTENT'' = Some (Str s)"
    and "map (float_of env) (split CHR '','' s) = map Some extent"
    and "4 \<le> length extent" and "db_connect env = None"
    and "db_execute env (centre_query env extent) = Inl msg"
  then show "snd (build env pairs) = Inl (DatabaseError msg)"
    by (rule build_query_fails)
next
  fix s extent row
  assume a: "dict_get (merged_params env pairs :: 'd params) ''EXTENT'' = Some (Str s)"
    "map (float_of env) (split CHR '','' s) = map Some extent"
    "4 \<le> length extent" "db_connect env = None"
    "db_execute env (centre_query env extent) = Inr row"
    and n: "dict_get (merged_params env pairs :: 'd params) ''SCALE'' = None"
  from build_after_query [OF a] obtain p1 :: "'d params" where
    "snd (build env pairs) = prefix_params p1" "dict_get p1 ''EXTENT'' \<noteq> None"
    "dict_get p1 ''SCALE'' = dict_get (merged_params env pairs) ''SCALE''"
    by this
  then show "snd (build env pairs) = Inl (KeyError ''SCALE'')"
    using n by (simp add: prefix_params_no_scale)
next
  fix s extent row
  assume a: "dict_get (merged_params env pairs :: 'd params) ''EXTENT'' = Some (Str s)"
    "map (float_of env) (split CHR '','' s) = map Some extent"
    "4 \<le> length extent" "db_connect env = None"
    "db_execute env (centre_query env extent) = Inr row"
    and n: "dict_get (merged_params env pairs :: 'd params) ''SCALE'' \<noteq> None"
      "dict_get (merged_params env pairs :: 'd params) ''ROTATION'' = None"
  from build_after_query [OF a] obtain p1 :: "'d params" where
    "snd (build env pairs) = prefix_params p1" "dict_get p1 ''EXTENT'' \<noteq> None"
    "dict_get p1 ''SCALE'' = dict_get (merged_params env pairs) ''SCALE''"
    "dict_get p1 ''ROTATION'' = dict_get (merged_params env pairs) ''ROTATION''"
    by this
  then show "snd (build env pairs) = Inl (KeyError ''ROTATION'')"
    using n by (simp add: prefix_params_no_rotation)
next
  fix s extent row
  assume a: "dict_get (merged_params env pairs :: 'd params) ''EXTENT'' = Some (Str s)"
    "map (float_of env) (split CHR '','' s) = map Some extent"
    "4 \<le> length extent" "db_connect env = None"
    "db_execute env (centre_query env extent) = Inr row"
    and n: "dict_get (merged_params env pairs :: 'd params) ''SCALE'' \<noteq> None"
      "dict_get (merged_params env pairs :: 'd params) ''ROTATION'' \<noteq> None"
  from build_after_query [OF a] obtain p1 :: "'d params" where
    b: "snd (build env pairs) = prefix_params p1" and e: "dict_get p1 ''EXTENT'' \<noteq> None"
    and s: "dict_get p1 ''SCALE'' = dict_get (merged_params env pairs) ''SCALE''"
    and r: "dict_get p1 ''ROTATION'' = dict_get (merged_params env pairs) ''ROTATION''"
    by this
  have "\<exists>r. prefix_params p1 = Inr r"
    using e s r n by (intro prefix_params_outcome(2)) simp_all
  then show "\<exists>r. snd (build env pairs) = Inr r"
    unfolding b .
qed

text \<open>
  The claim as stated fails: an \<open>EXTENT\<close> of five comma-separated floats is not four
  comma-separated floats, and \<open>build\<close> succeeds on it.
\<close>

theorem build_accepts_five_floats_counterexample:
  "snd (build example_env five_floats_pairs) = Inr five_floats_request \<and>
   dict_get (merged_params example_env five_floats_pairs :: string params) ''EXTENT'' = Some (Str ''1,2,3,4,5'') \<and>
   map (float_of example_env) (split CHR '','' ''1,2,3,4,5'') = map Some [1, 2, 3, 4, 5]"
  by code_simp

text \<open>
  A payload without \<open>SCALE\<close> and a payload whose \<open>EXTENT\<close> has a part that is no number.
\<close>

theorem build_outcome_witness:
  "snd (build example_env no_scale_pairs) = Inl (KeyError ''SCALE'') \<and>
   snd (build example_env malformed_pairs) = Inl (ValueError ''x'') \<and>
   dict_get (merged_params example_env no_scale_pairs :: string params) ''SCALE'' = None \<and>
   float_of example_env ''x'' = None"
proof -
  note scale = build_outcome [where env = example_env and pairs = no_scale_pairs,
      THEN conjunct2, THEN conjunct2, THEN conjunct2, rule_format]
  note malformed = build_outcome [where env = example_env and pairs = malformed_pairs,
      THEN conjunct2, THEN conjunct2, THEN conjunct1, rule_format]
  have e: "dict_get (merged_params example_env no_scale_pairs :: string params) ''EXTENT''
      = Some (Str ''10,20,30,40'')"
    by code_simp
  have m: "map (float_of example_env) (split CHR '','' ''10,20,30,40'')
      = map Some [10, 20, 30, 40]"
    by code_simp
  have l: "4 \<le> length [10, 20, 30, 40 :: rat]" by simp
  have c: "db_connect example_env = None" by (simp add: example_env_def)
  have q: "db_execute example_env (centre_query example_env [10, 20, 30, 40]) = Inr None"
    by (simp add: example_env_def)
  have n: "dict_get (merged_params example_env no_scale_pairs :: string params) ''SCALE'' = None"
    by code_simp
  have 1: "snd (build example_env no_scale_pairs) = Inl (KeyError ''SCALE'')"
    using scale [OF e m, THEN conjunct2, rule_format, OF l, THEN conjunct2, THEN conjunct2,
        rule_format, OF c q, THEN conjunct1, rule_format, OF n] .
  have e': "dict_get (merged_params example_env malformed_pairs :: string params) ''EXTENT''
      = Some (Str ''10,20,x,40'')"
    by code_simp
  have sp: "split CHR '','' ''10,20,x,40'' = [''10'', ''20'', ''x'', ''40'']" by code_simp
  have x: "float_of example_env ''x'' = None" by code_simp
  have f: "float_of example_env ''10'' = Some 10" "float_of example_env ''20'' = Some 20"
    "float_of example_env ''40'' = Some 40"
    by code_simp+
  have "''x'' \<in> set (split CHR '','' ''10,20,x,40'')" unfolding sp by simp
  from malformed [OF e' this x] obtain c' where
    c': "c' \<in> set (split CHR '','' ''10,20,x,40'')" "float_of example_env c' = None"
      "snd (build example_env malformed_pairs) = Inl (ValueError c')"
    by (elim bexE conjE)
  from c'(1) have "c' = ''10'' \<or> c' = ''20'' \<or> c' = ''x'' \<or> c' = ''40''"
    unfolding sp by simp
  then have "c' = ''x''"
    using c'(2) f by (elim disjE) simp_all
  with c'(3) have 2: "snd (build example_env malformed_pairs) = Inl (ValueError ''x'')"
    by simp
  from 1 2 n x show ?thesis by (intro conjI)
qed

section \<open>The print handler: the other parameters\<close>
















end
